theory Spec2Isabelle
  imports Main "HOL-Library.Sublist" "HOL-Library.AList"
begin

section \<open>Errors\<close>

text \<open>
  Modelled from the spec: the members of \<open>HTTPSTATUS\<close> (config/http.config is not among
  the sources). Only the status names that the services below pass or that the error
  taxonomy of the specification names are listed.
\<close>

datatype http_status = BAD_REQUEST | UNAUTHORIZED | NOT_FOUND | CONFLICT | INTERNAL_SERVER_ERROR

text \<open>Node's \<open>error.code\<close> of a failed file-system call.\<close>

datatype errno = EEXIST | ENOENT | ENOTDIR | EISDIR

text \<open>
  Every \<open>throw\<close> of the services is a value of this type. The exception classes come
  from utils/appError, which is not among the sources; the constructors carry what the
  \<open>throw\<close> sites pass: the message and, for \<open>HttpException\<close>, the status.
  \<open>ErrnoException\<close> is a rejected \<open>fs\<close> promise that a service rethrows.
\<close>

datatype app_error =
    HttpException string http_status
  | BadRequestException string
  | NotFoundException string
  | UnauthorizedException string
  | ErrnoException errno

text \<open>
  Modelled from the spec: the class of an error in the taxonomy of the specification
  (BadRequest, Unauthorized, NotFound, Conflict, Internal); utils/appError, which fixes
  the status of each exception class, is not among the sources. An \<open>HttpException\<close>
  has the status it was built with.
\<close>

fun error_class :: "app_error \<Rightarrow> http_status" where
  "error_class (HttpException m c) = c"
| "error_class (BadRequestException m) = BAD_REQUEST"
| "error_class (NotFoundException m) = NOT_FOUND"
| "error_class (UnauthorizedException m) = UNAUTHORIZED"
| "error_class (ErrnoException c) = INTERNAL_SERVER_ERROR"

section \<open>Tasks, work logs and the database\<close>

text \<open>
  Modelled from the spec: the role names of enums/role.enum (not among the sources);
  the services compare against \<open>Roles.OWNER\<close>, \<open>Roles.ADMIN\<close> and \<open>Roles.MEMBER\<close>.
\<close>

datatype Roles = OWNER | ADMIN | MEMBER

text \<open>
  A task document, with the fields the timer services read and write. Object ids are
  strings; a \<open>Date\<close> is its \<open>getTime()\<close>, the milliseconds since the epoch; a field that
  may be \<open>null\<close> or \<open>undefined\<close> is an option. Every number the timer services store is
  an integer (the request validator admits integer page counts only), so JavaScript's
  doubles are integers here.
\<close>

record task =
  task_id :: string
  workspace :: string
  assignedTo :: "string option"
  createdBy :: "string option"
  isRunning :: bool
  firstStartedAt :: "int option"
  activeStartAt :: "int option"
  lastStoppedAt :: "int option"
  totalSecondsSpent :: "int option"
  totalMinutesSpent :: "int option"
  pagesCompleted :: "int option"
  remarks :: "string option"

record task_work_log =
  wl_taskId :: string
  wl_userId :: string
  startedAt :: int
  stoppedAt :: int
  durationMinutes :: int
  wl_pagesCompleted :: "int option"
  wl_remarks :: "string option"

text \<open>The body of a stop request: both fields are optional.\<close>

record stop_body =
  body_pagesCompleted :: "int option"
  body_remarks :: "string option"

text \<open>
  The two collections the timer services touch. A collection is the list of its
  documents; \<open>_id\<close> is unique in a collection of the database.
\<close>

record db =
  tasks :: "task list"
  workLogs :: "task_work_log list"

definition unique_ids :: "db \<Rightarrow> bool" where
  "unique_ids s = distinct (map task_id (tasks s))"

text \<open>\<open>TaskModel.findById\<close>.\<close>

definition findById :: "db \<Rightarrow> string \<Rightarrow> task option" where
  "findById s tid = find (\<lambda>d. task_id d = tid) (tasks s)"

text \<open>\<open>task.save()\<close>: the stored document with the task's \<open>_id\<close> becomes the task.\<close>

definition save :: "task \<Rightarrow> db \<Rightarrow> db" where
  "save t s = s\<lparr>tasks := map (\<lambda>d. if task_id d = task_id t then t else d) (tasks s)\<rparr>"

text \<open>\<open>TaskWorkLogModel.create\<close>: one more document in the work-log collection.\<close>

definition create_work_log :: "task_work_log \<Rightarrow> db \<Rightarrow> db" where
  "create_work_log wl s = s\<lparr>workLogs := workLogs s @ [wl]\<rparr>"

section \<open>The timer services\<close>

text \<open>
  \<open>getMemberRoleInWorkspace\<close> lives in member.service, which is not among the sources:
  the services take it as the parameter \<open>roleOf\<close>, from a user and a workspace to the
  member's role or the error the lookup throws. \<open>now\<close> is the value of \<open>new Date()\<close>.
  A service returns its result or the thrown error, and the database as it is left.
\<close>

type_synonym role_lookup = "string \<Rightarrow> string \<Rightarrow> app_error + Roles"

definition ensureTaskTimerAccess :: "role_lookup \<Rightarrow> db \<Rightarrow> string \<Rightarrow> string \<Rightarrow> app_error + task" where
  "ensureTaskTimerAccess roleOf s taskId userId =
     (case findById s taskId of
        None \<Rightarrow> Inl (NotFoundException ''Task not found.'')
      | Some t \<Rightarrow>
          (case roleOf userId (workspace t) of
             Inl e \<Rightarrow> Inl e
           | Inr role \<Rightarrow>
               (let isPrivileged = (role = OWNER \<or> role = ADMIN);
                    isAssignee = (assignedTo t = Some userId)
                in if \<not> isPrivileged \<and> \<not> isAssignee
                   then Inl (UnauthorizedException
                          ''You do not have permission to manage this task timer.'')
                   else Inr t)))"

definition startTaskTimerService ::
  "role_lookup \<Rightarrow> int \<Rightarrow> db \<Rightarrow> string \<Rightarrow> string \<Rightarrow> (app_error + task) \<times> db" where
  "startTaskTimerService roleOf now s taskId userId =
     (case ensureTaskTimerAccess roleOf s taskId userId of
        Inl e \<Rightarrow> (Inl e, s)
      | Inr t \<Rightarrow>
          if isRunning t
          then (Inl (HttpException ''Task timer is already running.'' CONFLICT), s)
          else
            (let t1 = (if firstStartedAt t = None then t\<lparr>firstStartedAt := Some now\<rparr> else t);
                 t2 = t1\<lparr>activeStartAt := Some now\<rparr>;
                 t3 = t2\<lparr>isRunning := True\<rparr>
             in (Inr t3, save t3 s)))"

text \<open>
  The stop of one task: the work log is created first, then the task is updated and
  saved. \<open>Math.floor\<close> of a quotient of integers is \<open>div\<close>, which rounds down on
  negative numbers as well. \<open>x ?? y\<close> is \<open>y\<close> exactly when \<open>x\<close> is absent.
\<close>

definition stopTaskTimerService ::
  "role_lookup \<Rightarrow> int \<Rightarrow> db \<Rightarrow> string \<Rightarrow> string \<Rightarrow> stop_body \<Rightarrow> (app_error + task) \<times> db" where
  "stopTaskTimerService roleOf now s taskId userId body =
     (case ensureTaskTimerAccess roleOf s taskId userId of
        Inl e \<Rightarrow> (Inl e, s)
      | Inr t \<Rightarrow>
          (case activeStartAt t of
             None \<Rightarrow> (Inl (HttpException ''Task timer is not running.'' CONFLICT), s)
           | Some start \<Rightarrow>
               if \<not> isRunning t
               then (Inl (HttpException ''Task timer is not running.'' CONFLICT), s)
               else
                 (let durationSeconds = max 1 ((now - start) div 1000);
                      durationMins = max 1 (durationSeconds div 60);
                      s1 = create_work_log
                             \<lparr>wl_taskId = task_id t, wl_userId = userId, startedAt = start,
                              stoppedAt = now, durationMinutes = durationMins,
                              wl_pagesCompleted = body_pagesCompleted body,
                              wl_remarks = body_remarks body\<rparr> s;
                      currentSeconds =
                        (case totalSecondsSpent t of
                           Some x \<Rightarrow> x
                         | None \<Rightarrow> (case totalMinutesSpent t of Some m \<Rightarrow> m | None \<Rightarrow> 0) * 60);
                      t1 = t\<lparr>totalSecondsSpent := Some (currentSeconds + durationSeconds)\<rparr>;
                      t2 = t1\<lparr>totalMinutesSpent :=
                                Some ((currentSeconds + durationSeconds) div 60)\<rparr>;
                      t3 = t2\<lparr>lastStoppedAt := Some now\<rparr>;
                      t4 = t3\<lparr>isRunning := False\<rparr>;
                      t5 = t4\<lparr>activeStartAt := None\<rparr>;
                      t6 = (case body_pagesCompleted body of
                              None \<Rightarrow> t5
                            | Some p \<Rightarrow>
                                t5\<lparr>pagesCompleted :=
                                     Some ((case pagesCompleted t5 of Some c \<Rightarrow> c | None \<Rightarrow> 0) + p)\<rparr>);
                      t7 = (case body_remarks body of
                              None \<Rightarrow> t6
                            | Some r \<Rightarrow> t6\<lparr>remarks := Some r\<rparr>)
                  in (Inr t7, save t7 s1))))"

text \<open>
  The callback that \<open>stopAllRunningTaskTimersService\<close> maps over the running tasks:
  it returns at once on a task without \<open>activeStartAt\<close>.
\<close>

definition stopRunningTask :: "int \<Rightarrow> string \<Rightarrow> task \<Rightarrow> db \<Rightarrow> db" where
  "stopRunningTask now userId t s =
     (case activeStartAt t of
        None \<Rightarrow> s
      | Some start \<Rightarrow>
          (let durationSeconds = max 1 ((now - start) div 1000);
               durationMins = max 1 (durationSeconds div 60);
               s1 = create_work_log
                      \<lparr>wl_taskId = task_id t,
                       wl_userId =
                         (case assignedTo t of
                            Some a \<Rightarrow> a
                          | None \<Rightarrow> (case createdBy t of Some c \<Rightarrow> c | None \<Rightarrow> userId)),
                       startedAt = start, stoppedAt = now, durationMinutes = durationMins,
                       wl_pagesCompleted = None, wl_remarks = None\<rparr> s;
               currentSeconds =
                 (case totalSecondsSpent t of
                    Some x \<Rightarrow> x
                  | None \<Rightarrow> (case totalMinutesSpent t of Some m \<Rightarrow> m | None \<Rightarrow> 0) * 60);
               t1 = t\<lparr>totalSecondsSpent := Some (currentSeconds + durationSeconds)\<rparr>;
               t2 = t1\<lparr>totalMinutesSpent := Some ((currentSeconds + durationSeconds) div 60)\<rparr>;
               t3 = t2\<lparr>lastStoppedAt := Some now\<rparr>;
               t4 = t3\<lparr>isRunning := False\<rparr>;
               t5 = t4\<lparr>activeStartAt := None\<rparr>
           in save t5 s1))"

text \<open>
  The query \<open>{workspace, isRunning: true, activeStartAt: {$ne: null}}\<close> of
  \<open>TaskModel.find\<close>.
\<close>

definition runningTasks :: "db \<Rightarrow> string \<Rightarrow> task list" where
  "runningTasks s workspaceId =
     filter (\<lambda>d. workspace d = workspaceId \<and> isRunning d \<and> activeStartAt d \<noteq> None) (tasks s)"

text \<open>
  \<open>Promise.all\<close> over the mapped callbacks: every callback runs to its end, one task
  after the other in the order of the query's result. The result is \<open>stoppedCount\<close>.
\<close>

definition stopAllRunningTaskTimersService ::
  "role_lookup \<Rightarrow> int \<Rightarrow> db \<Rightarrow> string \<Rightarrow> string \<Rightarrow> (app_error + nat) \<times> db" where
  "stopAllRunningTaskTimersService roleOf now s workspaceId userId =
     (case roleOf userId workspaceId of
        Inl e \<Rightarrow> (Inl e, s)
      | Inr role \<Rightarrow>
          if \<not> (role = OWNER \<or> role = ADMIN)
          then (Inl (UnauthorizedException ''Only admins can stop all running task timers.''), s)
          else if length (runningTasks s workspaceId) = 0
          then (Inr 0, s)
          else (Inr (length (runningTasks s workspaceId)),
                fold (stopRunningTask now userId) (runningTasks s workspaceId) s))"

section \<open>Paths\<close>

text \<open>
  An absolute, normalised POSIX path is the list of its segments below the file-system
  root; the root itself is the empty list. The paths a request supplies are strings.
\<close>

type_synonym path = "string list"

text \<open>The segments of a path string; \<open>/\<close> is the only separator.\<close>

fun split_path :: "string \<Rightarrow> string list" where
  "split_path [] = [[]]"
| "split_path (c # cs) =
     (if c = CHR ''/'' then [] # split_path cs
      else (case split_path cs of [] \<Rightarrow> [[c]] | x # xs \<Rightarrow> (c # x) # xs))"

text \<open>
  Normalisation, segment by segment, from a normalised base: an empty segment and \<open>.\<close>
  stay where they are, \<open>..\<close> goes to the parent (the parent of the root is the root),
  any other segment goes down.
\<close>

fun walk :: "path \<Rightarrow> string list \<Rightarrow> path" where
  "walk p [] = p"
| "walk p (x # xs) =
     walk (if x = [] \<or> x = ''.'' then p else if x = ''..'' then butlast p else p @ [x]) xs"

text \<open>\<open>path.join(base, s)\<close> for an absolute, normalised \<open>base\<close>.\<close>

definition path_join :: "path \<Rightarrow> string \<Rightarrow> path" where
  "path_join base s = walk base (split_path s)"

text \<open>\<open>path.resolve(base, s)\<close>: an absolute \<open>s\<close> starts again from the root.\<close>

definition path_resolve :: "path \<Rightarrow> string \<Rightarrow> path" where
  "path_resolve base s =
     (case s of
        [] \<Rightarrow> base
      | c # cs \<Rightarrow> if c = CHR ''/'' then walk [] (split_path s) else walk base (split_path s))"

text \<open>\<open>path.basename\<close> of an absolute, normalised path.\<close>

definition path_basename :: "path \<Rightarrow> string" where
  "path_basename p = (if p = [] then [] else last p)"

text \<open>
  \<open>path.dirname\<close> of a path string, as Node computes it: trailing separators are
  skipped, the string is cut before the last separator of what remains, and the first
  character is never taken for that separator.
\<close>

definition path_dirname :: "string \<Rightarrow> string" where
  "path_dirname p =
     (case p of
        [] \<Rightarrow> ''.''
      | c # cs \<Rightarrow>
          (let hasRoot = (c = CHR ''/'');
               r = dropWhile (\<lambda>x. x \<noteq> CHR ''/'') (dropWhile (\<lambda>x. x = CHR ''/'') (rev cs))
           in if r = [] then (if hasRoot then ''/'' else ''.'')
              else if hasRoot \<and> length r = 1 then ''//''
              else take (length r) p))"

text \<open>
  Modelled from the spec: \<open>resolveWorkspacePath\<close> of utils/file-storage, which is not
  among the sources. The specification asks it to reject any path that, after
  normalisation, would resolve outside the workspace root (\<open>..\<close> traversal and absolute
  paths), to normalise to a canonical absolute path, and to treat an empty relative
  path as the workspace root itself. The callers read \<open>targetAbs\<close> from its result. The
  specification does not name the error; in its taxonomy invalid input is a BadRequest.
\<close>

definition resolveWorkspacePath :: "path \<Rightarrow> string \<Rightarrow> app_error + path" where
  "resolveWorkspacePath workspaceRoot relPath =
     (let targetAbs = path_resolve workspaceRoot relPath
      in if prefix workspaceRoot targetAbs then Inr targetAbs
         else Inl (BadRequestException ''Invalid path''))"

section \<open>The file system and the access log\<close>

text \<open>
  What \<open>fs.stat\<close> tells the services about a path: a regular file with its size, a
  directory, or something else (a socket, a device). The file system is the
  association list of its entries by absolute path; the root directory always exists.
  Modification times and file contents are not modelled.
\<close>

datatype node = FileNode nat | DirNode | OtherNode

type_synonym filesystem = "(path \<times> node) list"

definition fs_stat :: "filesystem \<Rightarrow> path \<Rightarrow> node option" where
  "fs_stat fs p = (if p = [] then Some DirNode else map_of fs p)"

text \<open>\<open>fs.mkdir(p, {recursive: false})\<close>.\<close>

definition fs_mkdir :: "path \<Rightarrow> filesystem \<Rightarrow> errno + filesystem" where
  "fs_mkdir p fs =
     (case fs_stat fs p of
        Some n \<Rightarrow> Inl EEXIST
      | None \<Rightarrow>
          (case fs_stat fs (butlast p) of
             None \<Rightarrow> Inl ENOENT
           | Some DirNode \<Rightarrow> Inr (AList.update p DirNode fs)
           | Some n \<Rightarrow> Inl ENOTDIR))"

text \<open>
  \<open>fs.mkdir(p, {recursive: true})\<close>: every missing directory on the way is created, an
  existing directory is passed, anything else in the way is an error.
\<close>

fun mkdirs :: "path \<Rightarrow> string list \<Rightarrow> filesystem \<Rightarrow> errno + filesystem" where
  "mkdirs base [] fs = Inr fs"
| "mkdirs base (x # xs) fs =
     (case fs_stat fs (base @ [x]) of
        Some DirNode \<Rightarrow> mkdirs (base @ [x]) xs fs
      | Some n \<Rightarrow> Inl (if xs = [] then EEXIST else ENOTDIR)
      | None \<Rightarrow> mkdirs (base @ [x]) xs (AList.update (base @ [x]) DirNode fs))"

definition fs_mkdir_recursive :: "path \<Rightarrow> filesystem \<Rightarrow> errno + filesystem" where
  "fs_mkdir_recursive p fs = mkdirs [] p fs"

text \<open>\<open>fs.readdir(p, {withFileTypes: true})\<close>: the names and kinds of the entries of \<open>p\<close>.\<close>

definition fs_readdir :: "filesystem \<Rightarrow> path \<Rightarrow> (string \<times> node) list" where
  "fs_readdir fs p = map (\<lambda>(q, n). (last q, n)) (filter (\<lambda>(q, n). q \<noteq> [] \<and> butlast q = p) fs)"

text \<open>\<open>fs.writeFile(p, buffer)\<close> for a buffer of the given size.\<close>

definition fs_writeFile :: "path \<Rightarrow> nat \<Rightarrow> filesystem \<Rightarrow> errno + filesystem" where
  "fs_writeFile p sz fs =
     (case fs_stat fs p of
        Some DirNode \<Rightarrow> Inl EISDIR
      | Some OtherNode \<Rightarrow> Inr fs
      | Some (FileNode old) \<Rightarrow> Inr (AList.update p (FileNode sz) fs)
      | None \<Rightarrow>
          (case fs_stat fs (butlast p) of
             None \<Rightarrow> Inl ENOENT
           | Some DirNode \<Rightarrow> Inr (AList.update p (FileNode sz) fs)
           | Some n \<Rightarrow> Inl ENOTDIR))"

text \<open>\<open>fs.rm(p, {recursive: true, force: false})\<close>: \<open>p\<close> and everything below it goes.\<close>

definition fs_rm_recursive :: "path \<Rightarrow> filesystem \<Rightarrow> errno + filesystem" where
  "fs_rm_recursive p fs =
     (case fs_stat fs p of
        None \<Rightarrow> Inl ENOENT
      | Some n \<Rightarrow> Inr (filter (\<lambda>(q, m). \<not> prefix p q) fs))"

text \<open>\<open>fs.unlink(p)\<close>.\<close>

definition fs_unlink :: "path \<Rightarrow> filesystem \<Rightarrow> errno + filesystem" where
  "fs_unlink p fs =
     (case fs_stat fs p of
        None \<Rightarrow> Inl ENOENT
      | Some DirNode \<Rightarrow> Inl EISDIR
      | Some n \<Rightarrow> Inr (AList.delete p fs))"

text \<open>The size that \<open>fs.stat\<close> reports; only that of a regular file is modelled.\<close>

fun node_size :: "node \<Rightarrow> nat" where
  "node_size (FileNode n) = n"
| "node_size DirNode = 0"
| "node_size OtherNode = 0"

datatype FileAccessAction = ENTER | DOWNLOAD | UPLOAD | CREATE_FOLDER | DELETE_FILE | DELETE_FOLDER

record file_access_log =
  fal_workspaceId :: string
  fal_userId :: string
  fal_action :: FileAccessAction
  fal_path :: string
  fal_fileName :: "string option"
  fal_size :: "nat option"

text \<open>The storage of the file library and the collection of access logs.\<close>

record file_state =
  storage :: filesystem
  accessLogs :: "file_access_log list"

text \<open>
  \<open>logFileAccess\<close>: the workspace and user ids are taken to be well-formed object ids,
  so that building them does not throw; an empty path is logged as \<open>.\<close>.
\<close>

definition logFileAccess ::
  "string \<Rightarrow> string \<Rightarrow> FileAccessAction \<Rightarrow> string \<Rightarrow> string option \<Rightarrow> nat option \<Rightarrow>
   file_state \<Rightarrow> file_state" where
  "logFileAccess workspaceId userId act logPath fileName sz st =
     st\<lparr>accessLogs := accessLogs st @
          [\<lparr>fal_workspaceId = workspaceId, fal_userId = userId, fal_action = act,
            fal_path = (if logPath = [] then ''.'' else logPath),
            fal_fileName = fileName, fal_size = sz\<rparr>]\<rparr>"

section \<open>The file-library services\<close>

text \<open>
  \<open>config.FILE_STORAGE_ROOT\<close> is read from the environment (its default is
  \<open>/srv/getsync/storage\<close>): the services take the absolute, normalised path it denotes
  as the parameter \<open>storageRoot\<close>. \<open>sanitizeFileName\<close> of utils/file-storage is not among the sources
  either and is the parameter \<open>sanitize\<close>. A service returns its result or the thrown
  error, and the state as it is left.
\<close>

definition ensureWorkspaceRoot :: "path \<Rightarrow> file_state \<Rightarrow> string \<Rightarrow> (app_error + path) \<times> file_state" where
  "ensureWorkspaceRoot storageRoot st workspaceId =
     (let workspaceRoot = path_join storageRoot workspaceId
      in case fs_mkdir_recursive workspaceRoot (storage st) of
           Inl c \<Rightarrow> (Inl (ErrnoException c), st)
         | Inr fs \<Rightarrow> (Inr workspaceRoot, st\<lparr>storage := fs\<rparr>))"

datatype item_type = Folder | File

record list_item =
  item_name :: string
  item_type :: item_type
  item_size :: "nat option"

text \<open>
  The callback that \<open>listWorkspaceFilesService\<close> maps over the directory entries, and
  \<open>Promise.all\<close> over the results: the first entry whose \<open>fs.stat\<close> fails decides.
\<close>

fun list_items :: "filesystem \<Rightarrow> path \<Rightarrow> (string \<times> node) list \<Rightarrow> errno + list_item list" where
  "list_items fs targetAbs [] = Inr []"
| "list_items fs targetAbs ((name, kind) # entries) =
     (case fs_stat fs (path_join targetAbs name) of
        None \<Rightarrow> Inl ENOENT
      | Some entryStat \<Rightarrow>
          (case list_items fs targetAbs entries of
             Inl c \<Rightarrow> Inl c
           | Inr items \<Rightarrow>
               Inr ((if kind = DirNode
                     then \<lparr>item_name = name, item_type = Folder, item_size = None\<rparr>
                     else \<lparr>item_name = name, item_type = File,
                           item_size = Some (node_size entryStat)\<rparr>) # items)))"

definition listWorkspaceFilesService ::
  "path \<Rightarrow> file_state \<Rightarrow> string \<Rightarrow> string \<Rightarrow> string option \<Rightarrow>
   (app_error + string \<times> list_item list) \<times> file_state" where
  "listWorkspaceFilesService storageRoot st workspaceId userId relPath =
     (case ensureWorkspaceRoot storageRoot st workspaceId of
        (Inl e, st1) \<Rightarrow> (Inl e, st1)
      | (Inr workspaceRoot, st1) \<Rightarrow>
          (case resolveWorkspacePath workspaceRoot (case relPath of Some p \<Rightarrow> p | None \<Rightarrow> []) of
             Inl e \<Rightarrow> (Inl e, st1)
           | Inr targetAbs \<Rightarrow>
               (case fs_stat (storage st1) targetAbs of
                  None \<Rightarrow> (Inl (NotFoundException ''Folder not found''), st1)
                | Some stat \<Rightarrow>
                    if stat \<noteq> DirNode
                    then (Inl (BadRequestException ''Path is not a folder''), st1)
                    else
                      (case list_items (storage st1) targetAbs
                              (fs_readdir (storage st1) targetAbs) of
                         Inl c \<Rightarrow> (Inl (ErrnoException c), st1)
                       | Inr items \<Rightarrow>
                           (Inr ((case relPath of Some p \<Rightarrow> p | None \<Rightarrow> []), items),
                            logFileAccess workspaceId userId ENTER
                              (case relPath of Some p \<Rightarrow> p | None \<Rightarrow> []) None None st1)))))"

text \<open>
  The download service does not create the workspace root. Its result is the file
  name and the size; the read stream it opens on \<open>targetAbs\<close> is not modelled.
\<close>

definition getWorkspaceFileDownloadService ::
  "path \<Rightarrow> file_state \<Rightarrow> string \<Rightarrow> string \<Rightarrow> string \<Rightarrow>
   (app_error + string \<times> nat) \<times> file_state" where
  "getWorkspaceFileDownloadService storageRoot st workspaceId userId relPath =
     (let workspaceRoot = path_join storageRoot workspaceId
      in case resolveWorkspacePath workspaceRoot relPath of
           Inl e \<Rightarrow> (Inl e, st)
         | Inr targetAbs \<Rightarrow>
             (case fs_stat (storage st) targetAbs of
                None \<Rightarrow> (Inl (NotFoundException ''File not found''), st)
              | Some stat \<Rightarrow>
                  (case stat of
                     FileNode sz \<Rightarrow>
                       (Inr (path_basename targetAbs, sz),
                        logFileAccess workspaceId userId DOWNLOAD (path_dirname relPath)
                          (Some (path_basename targetAbs)) (Some sz) st)
                   | _ \<Rightarrow> (Inl (BadRequestException ''Path is not a file''), st))))"

text \<open>
  The callback that \<open>uploadWorkspaceFilesService\<close> maps over the uploaded files, each
  given by its original name and its size. Every callback is started, so a failed write
  does not keep the other files from being written and logged; \<open>Promise.all\<close> rejects
  with a failure, here the first in the order of the files. The result is that failure,
  if any, the files saved, and the state.
\<close>

fun upload_files ::
  "(string \<Rightarrow> string) \<Rightarrow> string \<Rightarrow> string \<Rightarrow> string option \<Rightarrow> path \<Rightarrow> (string \<times> nat) list \<Rightarrow>
   file_state \<Rightarrow> errno option \<times> (string \<times> nat) list \<times> file_state" where
  "upload_files sanitize workspaceId userId relPath targetAbs [] st = (None, [], st)"
| "upload_files sanitize workspaceId userId relPath targetAbs ((originalname, sz) # files) st =
     (let safeName = sanitize originalname;
          destination = path_join targetAbs safeName
      in case fs_writeFile destination sz (storage st) of
           Inl c \<Rightarrow>
             (case upload_files sanitize workspaceId userId relPath targetAbs files st of
                (err, saved, st') \<Rightarrow> (Some c, saved, st'))
         | Inr fs \<Rightarrow>
             (case upload_files sanitize workspaceId userId relPath targetAbs files
                     (logFileAccess workspaceId userId UPLOAD
                        (case relPath of Some p \<Rightarrow> p | None \<Rightarrow> [])
                        (Some safeName) (Some sz) (st\<lparr>storage := fs\<rparr>)) of
                (err, saved, st') \<Rightarrow> (err, (safeName, sz) # saved, st')))"

definition uploadWorkspaceFilesService ::
  "path \<Rightarrow> (string \<Rightarrow> string) \<Rightarrow> file_state \<Rightarrow> string \<Rightarrow> string \<Rightarrow> string option \<Rightarrow>
   (string \<times> nat) list \<Rightarrow> (app_error + (string \<times> nat) list) \<times> file_state" where
  "uploadWorkspaceFilesService storageRoot sanitize st workspaceId userId relPath files =
     (if length files = 0 then (Inl (BadRequestException ''No files uploaded''), st)
      else
        (case ensureWorkspaceRoot storageRoot st workspaceId of
           (Inl e, st1) \<Rightarrow> (Inl e, st1)
         | (Inr workspaceRoot, st1) \<Rightarrow>
             (case resolveWorkspacePath workspaceRoot (case relPath of Some p \<Rightarrow> p | None \<Rightarrow> []) of
                Inl e \<Rightarrow> (Inl e, st1)
              | Inr targetAbs \<Rightarrow>
                  (case fs_mkdir_recursive targetAbs (storage st1) of
                     Inl c \<Rightarrow> (Inl (ErrnoException c), st1)
                   | Inr fs \<Rightarrow>
                       (case upload_files sanitize workspaceId userId relPath targetAbs files
                               (st1\<lparr>storage := fs\<rparr>) of
                          (Some c, saved, st2) \<Rightarrow> (Inl (ErrnoException c), st2)
                        | (None, saved, st2) \<Rightarrow> (Inr saved, st2))))))"

definition createWorkspaceFolderService ::
  "path \<Rightarrow> (string \<Rightarrow> string) \<Rightarrow> file_state \<Rightarrow> string \<Rightarrow> string \<Rightarrow> string option \<Rightarrow> string \<Rightarrow>
   (app_error + string) \<times> file_state" where
  "createWorkspaceFolderService storageRoot sanitize st workspaceId userId relPath name =
     (case ensureWorkspaceRoot storageRoot st workspaceId of
        (Inl e, st1) \<Rightarrow> (Inl e, st1)
      | (Inr workspaceRoot, st1) \<Rightarrow>
          (case resolveWorkspacePath workspaceRoot (case relPath of Some p \<Rightarrow> p | None \<Rightarrow> []) of
             Inl e \<Rightarrow> (Inl e, st1)
           | Inr targetAbs \<Rightarrow>
               (let safeName = sanitize name;
                    folderPath = path_join targetAbs safeName
                in case fs_mkdir folderPath (storage st1) of
                     Inl c \<Rightarrow>
                       if c = EEXIST then (Inl (BadRequestException ''Folder already exists''), st1)
                       else (Inl (ErrnoException c), st1)
                   | Inr fs \<Rightarrow>
                       (Inr safeName,
                        logFileAccess workspaceId userId CREATE_FOLDER
                          (case relPath of Some p \<Rightarrow> p | None \<Rightarrow> [])
                          (Some safeName) None (st1\<lparr>storage := fs\<rparr>)))))"

definition deleteWorkspaceItemService ::
  "path \<Rightarrow> file_state \<Rightarrow> string \<Rightarrow> string \<Rightarrow> string \<Rightarrow>
   (app_error + item_type \<times> string) \<times> file_state" where
  "deleteWorkspaceItemService storageRoot st workspaceId userId relPath =
     (case ensureWorkspaceRoot storageRoot st workspaceId of
        (Inl e, st1) \<Rightarrow> (Inl e, st1)
      | (Inr workspaceRoot, st1) \<Rightarrow>
          (case resolveWorkspacePath workspaceRoot relPath of
             Inl e \<Rightarrow> (Inl e, st1)
           | Inr targetAbs \<Rightarrow>
               (case fs_stat (storage st1) targetAbs of
                  None \<Rightarrow> (Inl (NotFoundException ''File or folder not found''), st1)
                | Some stat \<Rightarrow>
                    (let itemName = path_basename targetAbs;
                         parentPath = (if path_dirname relPath = ''.'' then []
                                       else path_dirname relPath)
                     in case stat of
                          DirNode \<Rightarrow>
                            (case fs_rm_recursive targetAbs (storage st1) of
                               Inl c \<Rightarrow> (Inl (ErrnoException c), st1)
                             | Inr fs \<Rightarrow>
                                 (Inr (Folder, itemName),
                                  logFileAccess workspaceId userId DELETE_FOLDER parentPath
                                    (Some itemName) None (st1\<lparr>storage := fs\<rparr>)))
                        | FileNode sz \<Rightarrow>
                            (case fs_unlink targetAbs (storage st1) of
                               Inl c \<Rightarrow> (Inl (ErrnoException c), st1)
                             | Inr fs \<Rightarrow>
                                 (Inr (File, itemName),
                                  logFileAccess workspaceId userId DELETE_FILE parentPath
                                    (Some itemName) (Some sz) (st1\<lparr>storage := fs\<rparr>)))
                        | OtherNode \<Rightarrow>
                            (Inl (BadRequestException ''Unsupported item type''), st1)))))"

section \<open>Auxiliary definitions for the timer proofs\<close>

definition accounted :: "int \<Rightarrow> int \<Rightarrow> task \<Rightarrow> task" where
  "accounted now start t =
     t\<lparr>totalSecondsSpent :=
         Some ((case totalSecondsSpent t of Some x \<Rightarrow> x
                | None \<Rightarrow> (case totalMinutesSpent t of Some m \<Rightarrow> m | None \<Rightarrow> 0) * 60)
               + max 1 ((now - start) div 1000)),
       totalMinutesSpent :=
         Some (((case totalSecondsSpent t of Some x \<Rightarrow> x
                | None \<Rightarrow> (case totalMinutesSpent t of Some m \<Rightarrow> m | None \<Rightarrow> 0) * 60)
               + max 1 ((now - start) div 1000)) div 60),
       lastStoppedAt := Some now, isRunning := False, activeStartAt := None\<rparr>"

definition with_body :: "stop_body \<Rightarrow> task \<Rightarrow> task" where
  "with_body body t =
     (case body_remarks body of
        None \<Rightarrow> (case body_pagesCompleted body of
                   None \<Rightarrow> t
                 | Some p \<Rightarrow> t\<lparr>pagesCompleted := Some ((case pagesCompleted t of Some c \<Rightarrow> c | None \<Rightarrow> 0) + p)\<rparr>)
      | Some r \<Rightarrow> (case body_pagesCompleted body of
                   None \<Rightarrow> t
                 | Some p \<Rightarrow> t\<lparr>pagesCompleted := Some ((case pagesCompleted t of Some c \<Rightarrow> c | None \<Rightarrow> 0) + p)\<rparr>)
                  \<lparr>remarks := Some r\<rparr>)"

definition bulk_log :: "int \<Rightarrow> string \<Rightarrow> int \<Rightarrow> task \<Rightarrow> task_work_log" where
  "bulk_log now userId start t =
     \<lparr>wl_taskId = task_id t,
      wl_userId = (case assignedTo t of
                     Some a \<Rightarrow> a
                   | None \<Rightarrow> (case createdBy t of Some c \<Rightarrow> c | None \<Rightarrow> userId)),
      startedAt = start, stoppedAt = now,
      durationMinutes = max 1 (max 1 ((now - start) div 1000) div 60),
      wl_pagesCompleted = None, wl_remarks = None\<rparr>"

definition stopped_doc :: "int \<Rightarrow> task \<Rightarrow> task" where
  "stopped_doc now t = (case activeStartAt t of None \<Rightarrow> t | Some start \<Rightarrow> accounted now start t)"

definition timer_consistent :: "task \<Rightarrow> bool" where
  "timer_consistent t =
     ((isRunning t \<longleftrightarrow> activeStartAt t \<noteq> None) \<and> (\<not> isRunning t \<longleftrightarrow> activeStartAt t = None))"

definition ex_roles :: role_lookup where
  "ex_roles userId workspaceId = (if userId = ''admin'' then Inr ADMIN else Inr MEMBER)"

definition ex_t1 :: task where
  "ex_t1 = \<lparr>task_id = ''t1'', workspace = ''w1'', assignedTo = Some ''alice'',
            createdBy = Some ''admin'', isRunning = False, firstStartedAt = None,
            activeStartAt = None, lastStoppedAt = None, totalSecondsSpent = Some 0,
            totalMinutesSpent = Some 0, pagesCompleted = Some 0, remarks = None\<rparr>"

definition ex_t2 :: task where
  "ex_t2 = \<lparr>task_id = ''t2'', workspace = ''w1'', assignedTo = None,
            createdBy = Some ''bob'', isRunning = True, firstStartedAt = Some 500,
            activeStartAt = Some 31000, lastStoppedAt = Some 900, totalSecondsSpent = None,
            totalMinutesSpent = Some 7, pagesCompleted = None, remarks = None\<rparr>"

definition ex_t3 :: task where
  "ex_t3 = \<lparr>task_id = ''t3'', workspace = ''w2'', assignedTo = Some ''carol'',
            createdBy = Some ''admin'', isRunning = True, firstStartedAt = Some 700,
            activeStartAt = Some 700, lastStoppedAt = None, totalSecondsSpent = Some 10,
            totalMinutesSpent = Some 0, pagesCompleted = None, remarks = None\<rparr>"

definition ex_t1_running :: task where
  "ex_t1_running = ex_t1\<lparr>isRunning := True, firstStartedAt := Some 1000, activeStartAt := Some 1000\<rparr>"

definition ex_t1_stopped :: task where
  "ex_t1_stopped = ex_t1\<lparr>firstStartedAt := Some 1000, lastStoppedAt := Some 91000,
                         totalSecondsSpent := Some 90, totalMinutesSpent := Some 1,
                         pagesCompleted := Some 3\<rparr>"

definition ex_t2_stopped :: task where
  "ex_t2_stopped = ex_t2\<lparr>isRunning := False, activeStartAt := None, lastStoppedAt := Some 91000,
                         totalSecondsSpent := Some 480, totalMinutesSpent := Some 8\<rparr>"

definition ex_body :: stop_body where
  "ex_body = \<lparr>body_pagesCompleted = Some 3, body_remarks = None\<rparr>"

definition ex_log1 :: task_work_log where
  "ex_log1 = \<lparr>wl_taskId = ''t1'', wl_userId = ''alice'', startedAt = 1000, stoppedAt = 91000,
              durationMinutes = 1, wl_pagesCompleted = Some 3, wl_remarks = None\<rparr>"

definition ex_db0 :: db where
  "ex_db0 = \<lparr>tasks = [ex_t1, ex_t2, ex_t3], workLogs = []\<rparr>"

definition ex_db1 :: db where
  "ex_db1 = \<lparr>tasks = [ex_t1_running, ex_t2, ex_t3], workLogs = []\<rparr>"

definition ex_db2 :: db where
  "ex_db2 = \<lparr>tasks = [ex_t1_stopped, ex_t2, ex_t3], workLogs = [ex_log1]\<rparr>"

definition ex_db3 :: db where
  "ex_db3 = \<lparr>tasks = [ex_t1_stopped\<lparr>pagesCompleted := Some 0\<rparr>, ex_t2_stopped, ex_t3],
             workLogs = [ex_log1\<lparr>wl_pagesCompleted := None\<rparr>,
                         \<lparr>wl_taskId = ''t2'', wl_userId = ''bob'', startedAt = 31000,
                          stoppedAt = 91000, durationMinutes = 1, wl_pagesCompleted = None,
                          wl_remarks = None\<rparr>]\<rparr>"

section \<open>Auxiliary definitions for the file-library proofs\<close>


text \<open>Every directory from \<open>base\<close> down along the segments exists.\<close>

fun all_dirs :: "filesystem \<Rightarrow> path \<Rightarrow> string list \<Rightarrow> bool" where
  "all_dirs fs base [] = True"
| "all_dirs fs base (x # xs) = (fs_stat fs (base @ [x]) = Some DirNode \<and> all_dirs fs (base @ [x]) xs)"

definition ex_storage_root :: path where
  "ex_storage_root = [''srv'', ''files'']"

definition ex_files0 :: file_state where
  "ex_files0 = \<lparr>storage = [], accessLogs = []\<rparr>"

definition ex_files1 :: file_state where
  "ex_files1 = \<lparr>storage = [([''srv''], DirNode), ([''srv'', ''files''], DirNode),
                           ([''srv'', ''files'', ''w1''], DirNode)],
                accessLogs = []\<rparr>"

definition ex_files2 :: file_state where
  "ex_files2 = \<lparr>storage = [([''srv''], DirNode), ([''srv'', ''files''], DirNode),
                           ([''srv'', ''files'', ''w1''], DirNode),
                           ([''srv'', ''files'', ''w1'', ''notes''], DirNode)],
                accessLogs = [\<lparr>fal_workspaceId = ''w1'', fal_userId = ''alice'',
                               fal_action = CREATE_FOLDER, fal_path = ''.'',
                               fal_fileName = Some ''notes'', fal_size = None\<rparr>]\<rparr>"

section \<open>Lemmas about the timer services\<close>

lemma ensure_Inr_find:
  "ensureTaskTimerAccess roleOf s taskId userId = Inr t \<Longrightarrow> findById s taskId = Some t"
  by (auto simp: ensureTaskTimerAccess_def Let_def split: option.splits sum.splits if_splits)

lemma find_Some_id:
  "find (\<lambda>d. task_id d = tid) xs = Some t \<Longrightarrow> task_id t = tid \<and> t \<in> set xs"
  by (induction xs) (auto split: if_splits)

lemma findById_id: "findById s tid = Some t \<Longrightarrow> task_id t = tid"
  using find_Some_id [of tid "tasks s" t] by (simp add: findById_def)

lemma findById_mem: "findById s tid = Some t \<Longrightarrow> t \<in> set (tasks s)"
  using find_Some_id [of tid "tasks s" t] by (simp add: findById_def)

lemma find_map_replace:
  "find (\<lambda>d. task_id d = tid) xs = Some t \<Longrightarrow> task_id t' = tid \<Longrightarrow>
   find (\<lambda>d. task_id d = tid) (map (\<lambda>d. if task_id d = task_id t' then t' else d) xs) = Some t'"
  by (induction xs) (auto split: if_splits)

lemma findById_save:
  "findById s tid = Some t \<Longrightarrow> task_id t' = tid \<Longrightarrow> findById (save t' s) tid = Some t'"
  using find_map_replace [of tid "tasks s" t t'] by (simp add: findById_def save_def)

lemma findById_create_work_log [simp]: "findById (create_work_log wl s) tid = findById s tid"
  by (simp add: findById_def create_work_log_def)

lemma tasks_create_work_log [simp]: "tasks (create_work_log wl s) = tasks s"
  by (simp add: create_work_log_def)

lemma workLogs_create_work_log [simp]: "workLogs (create_work_log wl s) = workLogs s @ [wl]"
  by (simp add: create_work_log_def)

lemma workLogs_save [simp]: "workLogs (save t s) = workLogs s"
  by (simp add: save_def)

lemma tasks_save: "tasks (save t s) = map (\<lambda>d. if task_id d = task_id t then t else d) (tasks s)"
  by (simp add: save_def)

lemma stop_eq:
  assumes "ensureTaskTimerAccess roleOf s taskId userId = Inr t"
    and "activeStartAt t = Some start" and "isRunning t"
  shows "stopTaskTimerService roleOf now s taskId userId body =
     (Inr (with_body body (accounted now start t)),
      save (with_body body (accounted now start t))
        (create_work_log
           \<lparr>wl_taskId = task_id t, wl_userId = userId, startedAt = start, stoppedAt = now,
            durationMinutes = max 1 (max 1 ((now - start) div 1000) div 60),
            wl_pagesCompleted = body_pagesCompleted body, wl_remarks = body_remarks body\<rparr> s))"
  using assms
  by (simp add: stopTaskTimerService_def Let_def accounted_def with_body_def split: option.split)

lemma stop_cases:
  assumes "stopTaskTimerService roleOf now s taskId userId body = (Inr t', s')"
  obtains t start where "ensureTaskTimerAccess roleOf s taskId userId = Inr t"
    and "activeStartAt t = Some start" and "isRunning t"
proof (cases "ensureTaskTimerAccess roleOf s taskId userId")
  case (Inl e)
  with assms show ?thesis by (simp add: stopTaskTimerService_def)
next
  case (Inr t)
  show ?thesis
  proof (cases "activeStartAt t")
    case None
    with Inr assms show ?thesis by (simp add: stopTaskTimerService_def)
  next
    case (Some start)
    show ?thesis
    proof (cases "isRunning t")
      case True
      with Inr Some that show ?thesis by blast
    next
      case False
      with Inr Some assms show ?thesis by (simp add: stopTaskTimerService_def)
    qed
  qed
qed

lemma stopRunningTask_eq:
  "activeStartAt t = Some start \<Longrightarrow>
   stopRunningTask now userId t s =
     save (accounted now start t) (create_work_log (bulk_log now userId start t) s)"
  by (simp add: stopRunningTask_def Let_def accounted_def bulk_log_def)

lemma task_id_accounted [simp]: "task_id (accounted now start t) = task_id t"
  by (simp add: accounted_def)

lemma task_id_with_body [simp]: "task_id (with_body body t) = task_id t"
  by (simp add: with_body_def split: option.split)

lemma task_id_stopped_doc [simp]: "task_id (stopped_doc now t) = task_id t"
  by (simp add: stopped_doc_def split: option.split)

lemma workLogs_fold_stop:
  "\<forall>r\<in>set rs. activeStartAt r \<noteq> None \<Longrightarrow>
   workLogs (fold (stopRunningTask now userId) rs s) =
     workLogs s @ map (\<lambda>r. bulk_log now userId (the (activeStartAt r)) r) rs"
proof (induction rs arbitrary: s)
  case Nil
  then show ?case by simp
next
  case (Cons r rs)
  from Cons.prems obtain start where st: "activeStartAt r = Some start" by auto
  from Cons.prems have rest: "\<forall>x\<in>set rs. activeStartAt x \<noteq> None" by simp
  show ?case
    using Cons.IH [OF rest, of "stopRunningTask now userId r s"] st
    by (simp add: stopRunningTask_eq)
qed

lemma find_none_notin:
  "f d \<notin> f ` set rs \<Longrightarrow> find (\<lambda>r. f r = f d) rs = None"
  by (induction rs) auto

lemma tasks_fold_stop:
  "distinct (map task_id rs) \<Longrightarrow> \<forall>r\<in>set rs. activeStartAt r \<noteq> None \<Longrightarrow>
   tasks (fold (stopRunningTask now userId) rs s) =
     map (\<lambda>d. case find (\<lambda>r. task_id r = task_id d) rs of
                 None \<Rightarrow> d
               | Some r \<Rightarrow> stopped_doc now r) (tasks s)"
proof (induction rs arbitrary: s)
  case Nil
  then show ?case by simp
next
  case (Cons r rs)
  from Cons.prems obtain start where st: "activeStartAt r = Some start" by auto
  from Cons.prems have rest: "\<forall>x\<in>set rs. activeStartAt x \<noteq> None"
    and dist: "distinct (map task_id rs)" and fresh: "task_id r \<notin> task_id ` set rs"
    by simp_all
  have none: "find (\<lambda>x. task_id x = task_id r) rs = None"
    using find_none_notin [of task_id r rs] fresh by simp
  have step: "tasks (stopRunningTask now userId r s) =
      map (\<lambda>d. if task_id d = task_id r then stopped_doc now r else d) (tasks s)"
    using st by (simp add: stopRunningTask_eq tasks_save stopped_doc_def)
  show ?case
    using Cons.IH [OF dist rest, of "stopRunningTask now userId r s"] none
    by (simp add: step comp_def eq_commute cong: if_cong)
qed

lemma find_filter_distinct:
  "distinct (map f xs) \<Longrightarrow> d \<in> set xs \<Longrightarrow>
   find (\<lambda>r. f r = f d) (filter q xs) = (if q d then Some d else None)"
proof (induction xs)
  case Nil
  then show ?case by simp
next
  case (Cons x xs)
  show ?case
  proof (cases "d = x")
    case True
    with Cons.prems have "f d \<notin> f ` set (filter q xs)" by auto
    then have "find (\<lambda>r. f r = f d) (filter q xs) = None" by (rule find_none_notin)
    with True show ?thesis by simp
  next
    case False
    with Cons.prems have "d \<in> set xs" and "f x \<noteq> f d" and "distinct (map f xs)" by auto
    with Cons.IH show ?thesis by simp
  qed
qed

lemma runningTasks_active: "\<forall>r\<in>set (runningTasks s ws). activeStartAt r \<noteq> None"
  by (simp add: runningTasks_def)

lemma runningTasks_distinct: "unique_ids s \<Longrightarrow> distinct (map task_id (runningTasks s ws))"
  by (simp add: runningTasks_def unique_ids_def distinct_map_filter)

lemma stopAll_tasks:
  assumes "unique_ids s"
  shows "tasks (fold (stopRunningTask now userId) (runningTasks s ws) s) =
     map (\<lambda>d. if workspace d = ws \<and> isRunning d \<and> activeStartAt d \<noteq> None
               then stopped_doc now d else d) (tasks s)"
proof -
  have "\<And>d. d \<in> set (tasks s) \<Longrightarrow>
      (case find (\<lambda>r. task_id r = task_id d) (runningTasks s ws) of
         None \<Rightarrow> d | Some r \<Rightarrow> stopped_doc now r) =
      (if workspace d = ws \<and> isRunning d \<and> activeStartAt d \<noteq> None
       then stopped_doc now d else d)"
    using assms find_filter_distinct [of task_id "tasks s"]
    by (auto simp: runningTasks_def unique_ids_def)
  then show ?thesis
    using tasks_fold_stop [OF runningTasks_distinct [OF assms] runningTasks_active]
    by simp
qed

lemma stopAll_eq:
  assumes "roleOf userId ws = Inr role" and "role = OWNER \<or> role = ADMIN"
  shows "stopAllRunningTaskTimersService roleOf now s ws userId =
     (Inr (length (runningTasks s ws)),
      fold (stopRunningTask now userId) (runningTasks s ws) s)"
  using assms by (auto simp: stopAllRunningTaskTimersService_def)

lemma stopAll_cases:
  assumes "stopAllRunningTaskTimersService roleOf now s ws userId = (Inr n, s')"
  obtains role where "roleOf userId ws = Inr role" and "role = OWNER \<or> role = ADMIN"
  using assms
  by (cases "roleOf userId ws") (auto simp: stopAllRunningTaskTimersService_def split: if_splits)

lemma stopAll_workLogs:
  assumes "stopAllRunningTaskTimersService roleOf now s ws userId = (Inr n, s')"
  shows "workLogs s' = workLogs s @
           map (\<lambda>r. bulk_log now userId (the (activeStartAt r)) r) (runningTasks s ws)"
    and "n = length (runningTasks s ws)"
proof -
  from assms obtain role where r1: "roleOf userId ws = Inr role" and r2: "role = OWNER \<or> role = ADMIN"
    by (rule stopAll_cases)
  from stopAll_eq [of roleOf userId ws role now s, OF r1 r2] assms
  have s': "s' = fold (stopRunningTask now userId) (runningTasks s ws) s"
    and n: "n = length (runningTasks s ws)" by simp_all
  show "n = length (runningTasks s ws)" by (rule n)
  show "workLogs s' = workLogs s @
           map (\<lambda>r. bulk_log now userId (the (activeStartAt r)) r) (runningTasks s ws)"
    unfolding s' by (rule workLogs_fold_stop [OF runningTasks_active])
qed

lemma stopAll_tasks_result:
  assumes "unique_ids s"
    and "stopAllRunningTaskTimersService roleOf now s ws userId = (Inr n, s')"
  shows "tasks s' =
     map (\<lambda>d. if workspace d = ws \<and> isRunning d \<and> activeStartAt d \<noteq> None
               then stopped_doc now d else d) (tasks s)"
proof -
  from assms(2) obtain role where r1: "roleOf userId ws = Inr role" and r2: "role = OWNER \<or> role = ADMIN"
    by (rule stopAll_cases)
  from stopAll_eq [of roleOf userId ws role now s, OF r1 r2] assms(2)
  have s': "s' = fold (stopRunningTask now userId) (runningTasks s ws) s" by simp
  show ?thesis unfolding s' by (rule stopAll_tasks [OF assms(1)])
qed

lemma find_map_keep_id:
  "(\<And>d. f (g d) = f d) \<Longrightarrow> find (\<lambda>d. f d = k) (map g xs) = map_option g (find (\<lambda>d. f d = k) xs)"
  by (induction xs) auto

lemma find_distinct_mem:
  "distinct (map f xs) \<Longrightarrow> d \<in> set xs \<Longrightarrow> find (\<lambda>r. f r = f d) xs = Some d"
  using find_filter_distinct [of f xs d "\<lambda>_. True"] by simp

lemma accounted_fields:
  "totalSecondsSpent (accounted now start t) =
     Some ((case totalSecondsSpent t of Some x \<Rightarrow> x
            | None \<Rightarrow> (case totalMinutesSpent t of Some m \<Rightarrow> m | None \<Rightarrow> 0) * 60)
           + max 1 ((now - start) div 1000))"
  "totalMinutesSpent (accounted now start t) =
     Some (((case totalSecondsSpent t of Some x \<Rightarrow> x
            | None \<Rightarrow> (case totalMinutesSpent t of Some m \<Rightarrow> m | None \<Rightarrow> 0) * 60)
           + max 1 ((now - start) div 1000)) div 60)"
  "isRunning (accounted now start t) = False"
  "activeStartAt (accounted now start t) = None"
  "lastStoppedAt (accounted now start t) = Some now"
  "firstStartedAt (accounted now start t) = firstStartedAt t"
  "workspace (accounted now start t) = workspace t"
  "assignedTo (accounted now start t) = assignedTo t"
  "createdBy (accounted now start t) = createdBy t"
  by (simp_all add: accounted_def)

lemma with_body_fields:
  "totalSecondsSpent (with_body body t) = totalSecondsSpent t"
  "totalMinutesSpent (with_body body t) = totalMinutesSpent t"
  "isRunning (with_body body t) = isRunning t"
  "activeStartAt (with_body body t) = activeStartAt t"
  "lastStoppedAt (with_body body t) = lastStoppedAt t"
  "firstStartedAt (with_body body t) = firstStartedAt t"
  "workspace (with_body body t) = workspace t"
  "assignedTo (with_body body t) = assignedTo t"
  "createdBy (with_body body t) = createdBy t"
  by (simp_all add: with_body_def split: option.split)


lemma stopAll_task_found:
  assumes u: "unique_ids s"
    and r: "stopAllRunningTaskTimersService roleOf now s ws userId = (Inr n, s')"
    and m: "d \<in> set (tasks s)"
  shows "findById s' (task_id d) =
     Some (if workspace d = ws \<and> isRunning d \<and> activeStartAt d \<noteq> None
           then stopped_doc now d else d)"
proof -
  let ?g = "\<lambda>d. if workspace d = ws \<and> isRunning d \<and> activeStartAt d \<noteq> None
                 then stopped_doc now d else d"
  have keep: "\<And>x. task_id (?g x) = task_id x" by simp
  have "find (\<lambda>x. task_id x = task_id d) (tasks s) = Some d"
    using u m find_distinct_mem [of task_id "tasks s" d] by (simp add: unique_ids_def)
  then show ?thesis
    using find_map_keep_id [of task_id ?g "task_id d" "tasks s", OF keep]
    by (simp add: findById_def stopAll_tasks_result [OF u r])
qed

lemmas ex_defs = ex_roles_def ex_t1_def ex_t2_def ex_t3_def ex_t1_running_def ex_t1_stopped_def
  ex_t2_stopped_def ex_body_def ex_log1_def ex_db0_def ex_db1_def ex_db2_def ex_db3_def

lemmas service_defs = ensureTaskTimerAccess_def findById_def save_def create_work_log_def
  startTaskTimerService_def stopTaskTimerService_def stopRunningTask_def runningTasks_def
  stopAllRunningTaskTimersService_def unique_ids_def Let_def

lemma start_cases:
  assumes "fst (startTaskTimerService roleOf now s taskId userId) = Inr t'"
  obtains t where "ensureTaskTimerAccess roleOf s taskId userId = Inr t" and "\<not> isRunning t"
  using assms
  by (cases "ensureTaskTimerAccess roleOf s taskId userId")
     (auto simp: startTaskTimerService_def split: if_splits)

lemma start_eq:
  assumes "ensureTaskTimerAccess roleOf s taskId userId = Inr t" and "\<not> isRunning t"
  shows "startTaskTimerService roleOf now s taskId userId =
     (Inr ((if firstStartedAt t = None then t\<lparr>firstStartedAt := Some now\<rparr> else t)
             \<lparr>activeStartAt := Some now, isRunning := True\<rparr>),
      save ((if firstStartedAt t = None then t\<lparr>firstStartedAt := Some now\<rparr> else t)
             \<lparr>activeStartAt := Some now, isRunning := True\<rparr>) s)"
  using assms by (simp add: startTaskTimerService_def Let_def)

lemma start_failure_unchanged:
  "fst (startTaskTimerService roleOf now s taskId userId) = Inl e \<Longrightarrow>
   snd (startTaskTimerService roleOf now s taskId userId) = s"
  by (cases "ensureTaskTimerAccess roleOf s taskId userId")
     (auto simp: startTaskTimerService_def Let_def split: if_splits)

lemma stop_failure_unchanged:
  "fst (stopTaskTimerService roleOf now s taskId userId body) = Inl e \<Longrightarrow>
   snd (stopTaskTimerService roleOf now s taskId userId body) = s"
proof (cases "ensureTaskTimerAccess roleOf s taskId userId")
  case (Inl e')
  then show ?thesis by (simp add: stopTaskTimerService_def)
next
  case (Inr t)
  assume f: "fst (stopTaskTimerService roleOf now s taskId userId body) = Inl e"
  show ?thesis
  proof (cases "activeStartAt t")
    case None
    with Inr show ?thesis by (simp add: stopTaskTimerService_def)
  next
    case (Some start)
    show ?thesis
    proof (cases "isRunning t")
      case True
      from stop_eq [OF Inr Some True, where now = now and body = body] f show ?thesis by simp
    next
      case False
      with Inr Some show ?thesis by (simp add: stopTaskTimerService_def)
    qed
  qed
qed

lemma stop_cases_fst:
  assumes "fst (stopTaskTimerService roleOf now s taskId userId body) = Inr t'"
  obtains t start where "ensureTaskTimerAccess roleOf s taskId userId = Inr t"
    and "activeStartAt t = Some start" and "isRunning t"
proof -
  from assms have "stopTaskTimerService roleOf now s taskId userId body =
      (Inr t', snd (stopTaskTimerService roleOf now s taskId userId body))"
    by (simp add: prod_eq_iff)
  then show thesis by (rule stop_cases) (rule that)
qed

lemma stopAll_cases_fst:
  assumes "fst (stopAllRunningTaskTimersService roleOf now s ws userId) = Inr n"
  shows "stopAllRunningTaskTimersService roleOf now s ws userId =
     (Inr n, snd (stopAllRunningTaskTimersService roleOf now s ws userId))"
  using assms by (simp add: prod_eq_iff)

lemma stopAll_failure_unchanged:
  "fst (stopAllRunningTaskTimersService roleOf now s ws userId) = Inl e \<Longrightarrow>
   snd (stopAllRunningTaskTimersService roleOf now s ws userId) = s"
  by (cases "roleOf userId ws")
     (auto simp: stopAllRunningTaskTimersService_def split: if_splits)

lemma list_all_save:
  "list_all P (tasks s) \<Longrightarrow> P t \<Longrightarrow> list_all P (tasks (save t s))"
  by (auto simp: tasks_save list_all_iff)

lemma list_all_fold_stop:
  "list_all timer_consistent (tasks s) \<Longrightarrow>
   list_all timer_consistent (tasks (fold (stopRunningTask now userId) rs s))"
proof (induction rs arbitrary: s)
  case Nil
  then show ?case by simp
next
  case (Cons r rs)
  have "list_all timer_consistent (tasks (stopRunningTask now userId r s))"
  proof (cases "activeStartAt r")
    case None
    with Cons.prems show ?thesis by (simp add: stopRunningTask_def)
  next
    case (Some start)
    have "timer_consistent (accounted now start r)"
      by (simp add: timer_consistent_def accounted_fields)
    with Cons.prems show ?thesis
      by (simp add: stopRunningTask_eq [OF Some] list_all_save)
  qed
  then show ?case using Cons.IH by simp
qed

lemma start_result:
  assumes "findById s taskId = Some t"
    and "startTaskTimerService roleOf now s taskId userId = (Inr t', s')"
  shows "t' = (if firstStartedAt t = None then t\<lparr>firstStartedAt := Some now\<rparr> else t)
                \<lparr>activeStartAt := Some now, isRunning := True\<rparr>"
    and "s' = save t' s" and "\<not> isRunning t"
proof -
  from assms(2) have "fst (startTaskTimerService roleOf now s taskId userId) = Inr t'" by simp
  then obtain t0 where e: "ensureTaskTimerAccess roleOf s taskId userId = Inr t0"
    and r: "\<not> isRunning t0" by (rule start_cases)
  from e assms(1) have t0: "t0 = t" using ensure_Inr_find [of roleOf s taskId userId t0] by simp
  from r t0 show "\<not> isRunning t" by simp
  from start_eq [OF e r, where now = now] assms(2) t0
  show "t' = (if firstStartedAt t = None then t\<lparr>firstStartedAt := Some now\<rparr> else t)
                \<lparr>activeStartAt := Some now, isRunning := True\<rparr>"
    and "s' = save t' s"
    by simp_all
qed

lemma ensure_cases:
  assumes "findById s taskId = Some t" and "roleOf userId (workspace t) = Inr role"
  shows "ensureTaskTimerAccess roleOf s taskId userId =
     (if role = OWNER \<or> role = ADMIN \<or> assignedTo t = Some userId
      then Inr t
      else Inl (UnauthorizedException ''You do not have permission to manage this task timer.''))"
  using assms by (simp add: ensureTaskTimerAccess_def Let_def)

lemma map_field_save:
  assumes "distinct (map task_id (tasks s))" and "t \<in> set (tasks s)"
    and "task_id t' = task_id t" and "f t' = f t"
  shows "map f (tasks (save t' s)) = map f (tasks s)"
proof -
  have "\<And>d. d \<in> set (tasks s) \<Longrightarrow> task_id d = task_id t \<Longrightarrow> d = t"
    using assms(1,2) by (meson distinct_map inj_onD)
  then have "\<And>d. d \<in> set (tasks s) \<Longrightarrow>
      f (if task_id d = task_id t' then t' else d) = f d"
    using assms(3,4) by auto
  then show ?thesis by (simp add: tasks_save)
qed

lemma ensure_Inr_role:
  "ensureTaskTimerAccess roleOf s taskId userId = Inr t \<Longrightarrow>
   \<exists>role. roleOf userId (workspace t) = Inr role \<and>
          (role = OWNER \<or> role = ADMIN \<or> assignedTo t = Some userId)"
  by (auto simp: ensureTaskTimerAccess_def Let_def split: option.splits sum.splits if_splits)

section \<open>The timer claims\<close>

text \<open>
  Claim C1. A stop is valid when the actor passes the access check and the task is
  running with an \<open>activeStartAt\<close>; these are exactly the stops that succeed. Every valid
  stop succeeds and appends one work log whose duration in minutes is
  \<open>max 1 (elapsed div 60)\<close>, where \<open>elapsed = max 1 ((now - activeStartAt) div 1000)\<close>
  seconds; the task's \<open>totalSecondsSpent\<close> afterwards is its value before (the seeded
  value when the field was absent) plus \<open>elapsed\<close>; and \<open>totalMinutesSpent\<close> afterwards
  is the new \<open>totalSecondsSpent\<close> divided by 60, rounded down. The same holds for every
  running task of the workspace when a privileged actor stops them all.
\<close>

theorem stop_accounting_exact:
  "(ensureTaskTimerAccess roleOf s taskId userId = Inr t \<and> isRunning t \<and>
    activeStartAt t = Some start \<longrightarrow>
      (\<exists>t' s' wl.
         stopTaskTimerService roleOf now s taskId userId body = (Inr t', s') \<and>
         workLogs s' = workLogs s @ [wl] \<and> wl_taskId wl = taskId \<and> wl_userId wl = userId \<and>
         startedAt wl = start \<and> stoppedAt wl = now \<and>
         durationMinutes wl = max 1 (max 1 ((now - start) div 1000) div 60) \<and>
         totalSecondsSpent t' =
           Some ((case totalSecondsSpent t of Some x \<Rightarrow> x
                  | None \<Rightarrow> (case totalMinutesSpent t of Some m \<Rightarrow> m | None \<Rightarrow> 0) * 60)
                 + max 1 ((now - start) div 1000)) \<and>
         totalMinutesSpent t' =
           Some (((case totalSecondsSpent t of Some x \<Rightarrow> x
                   | None \<Rightarrow> (case totalMinutesSpent t of Some m \<Rightarrow> m | None \<Rightarrow> 0) * 60)
                  + max 1 ((now - start) div 1000)) div 60) \<and>
         findById s' taskId = Some t')) \<and>
   (fst (stopTaskTimerService roleOf now s taskId userId body) = Inr tb \<longrightarrow>
      (\<exists>t start. ensureTaskTimerAccess roleOf s taskId userId = Inr t \<and> isRunning t \<and>
                 activeStartAt t = Some start)) \<and>
   (roleOf actor ws = Inr role \<and> (role = OWNER \<or> role = ADMIN) \<and> unique_ids s \<and>
    r \<in> set (tasks s) \<and> workspace r = ws \<and> isRunning r \<and> activeStartAt r = Some startb \<longrightarrow>
      fst (stopAllRunningTaskTimersService roleOf now s ws actor) =
        Inr (length (runningTasks s ws)) \<and>
      (\<exists>wl \<in> set (drop (length (workLogs s))
                    (workLogs (snd (stopAllRunningTaskTimersService roleOf now s ws actor)))).
            wl_taskId wl = task_id r \<and> startedAt wl = startb \<and> stoppedAt wl = now \<and>
            durationMinutes wl = max 1 (max 1 ((now - startb) div 1000) div 60)) \<and>
      (\<exists>r'. findById (snd (stopAllRunningTaskTimersService roleOf now s ws actor)) (task_id r) =
              Some r' \<and>
            totalSecondsSpent r' =
              Some ((case totalSecondsSpent r of Some x \<Rightarrow> x
                     | None \<Rightarrow> (case totalMinutesSpent r of Some m \<Rightarrow> m | None \<Rightarrow> 0) * 60)
                    + max 1 ((now - startb) div 1000)) \<and>
            totalMinutesSpent r' =
              Some (((case totalSecondsSpent r of Some x \<Rightarrow> x
                      | None \<Rightarrow> (case totalMinutesSpent r of Some m \<Rightarrow> m | None \<Rightarrow> 0) * 60)
                     + max 1 ((now - startb) div 1000)) div 60)))"
proof (intro conjI impI; (elim conjE)?)
  assume e: "ensureTaskTimerAccess roleOf s taskId userId = Inr t" and run: "isRunning t"
    and a: "activeStartAt t = Some start"
  let ?T = "with_body body (accounted now start t)"
  let ?W = "\<lparr>wl_taskId = taskId, wl_userId = userId, startedAt = start, stoppedAt = now,
            durationMinutes = max 1 (max 1 ((now - start) div 1000) div 60),
            wl_pagesCompleted = body_pagesCompleted body, wl_remarks = body_remarks body\<rparr>"
  let ?S = "save ?T (create_work_log ?W s)"
  have f: "findById s taskId = Some t" by (rule ensure_Inr_find [OF e])
  have tid: "task_id t = taskId" by (rule findById_id [OF f])
  have eq: "stopTaskTimerService roleOf now s taskId userId body = (Inr ?T, ?S)"
    by (simp add: stop_eq [OF e a run] tid)
  have found: "findById ?S taskId = Some ?T"
  proof (rule findById_save)
    show "findById (create_work_log ?W s) taskId = Some t" using f by simp
    show "task_id ?T = taskId" using tid by simp
  qed
  have main: "stopTaskTimerService roleOf now s taskId userId body = (Inr ?T, ?S) \<and>
         workLogs ?S = workLogs s @ [?W] \<and> wl_taskId ?W = taskId \<and> wl_userId ?W = userId \<and>
         startedAt ?W = start \<and> stoppedAt ?W = now \<and>
         durationMinutes ?W = max 1 (max 1 ((now - start) div 1000) div 60) \<and>
         totalSecondsSpent ?T =
           Some ((case totalSecondsSpent t of Some x \<Rightarrow> x
                  | None \<Rightarrow> (case totalMinutesSpent t of Some m \<Rightarrow> m | None \<Rightarrow> 0) * 60)
                 + max 1 ((now - start) div 1000)) \<and>
         totalMinutesSpent ?T =
           Some (((case totalSecondsSpent t of Some x \<Rightarrow> x
                   | None \<Rightarrow> (case totalMinutesSpent t of Some m \<Rightarrow> m | None \<Rightarrow> 0) * 60)
                  + max 1 ((now - start) div 1000)) div 60) \<and>
         findById ?S taskId = Some ?T"
    by (simp add: eq found with_body_fields accounted_fields)
  show "\<exists>t' s' wl.
         stopTaskTimerService roleOf now s taskId userId body = (Inr t', s') \<and>
         workLogs s' = workLogs s @ [wl] \<and> wl_taskId wl = taskId \<and> wl_userId wl = userId \<and>
         startedAt wl = start \<and> stoppedAt wl = now \<and>
         durationMinutes wl = max 1 (max 1 ((now - start) div 1000) div 60) \<and>
         totalSecondsSpent t' =
           Some ((case totalSecondsSpent t of Some x \<Rightarrow> x
                  | None \<Rightarrow> (case totalMinutesSpent t of Some m \<Rightarrow> m | None \<Rightarrow> 0) * 60)
                 + max 1 ((now - start) div 1000)) \<and>
         totalMinutesSpent t' =
           Some (((case totalSecondsSpent t of Some x \<Rightarrow> x
                   | None \<Rightarrow> (case totalMinutesSpent t of Some m \<Rightarrow> m | None \<Rightarrow> 0) * 60)
                  + max 1 ((now - start) div 1000)) div 60) \<and>
         findById s' taskId = Some t'"
    by (rule exI [of _ ?T], rule exI [of _ ?S], rule exI [of _ ?W]) (rule main)
next
  assume "fst (stopTaskTimerService roleOf now s taskId userId body) = Inr tb"
  then obtain t0 start0 where "ensureTaskTimerAccess roleOf s taskId userId = Inr t0"
    and "activeStartAt t0 = Some start0" and "isRunning t0" by (rule stop_cases_fst)
  then show "\<exists>t start. ensureTaskTimerAccess roleOf s taskId userId = Inr t \<and> isRunning t \<and>
                 activeStartAt t = Some start" by blast
next
  assume r1: "roleOf actor ws = Inr role" and r2: "role = OWNER \<or> role = ADMIN"
    and u: "unique_ids s"
    and m: "r \<in> set (tasks s)" and w: "workspace r = ws" and run: "isRunning r"
    and a: "activeStartAt r = Some startb"
  let ?sb = "snd (stopAllRunningTaskTimersService roleOf now s ws actor)"
  note eq = stopAll_eq [of roleOf actor ws role now s, OF r1 r2]
  have sa: "stopAllRunningTaskTimersService roleOf now s ws actor =
      (Inr (length (runningTasks s ws)), ?sb)" by (simp add: eq)
  show "fst (stopAllRunningTaskTimersService roleOf now s ws actor) =
        Inr (length (runningTasks s ws))" by (simp add: eq)
  have rt: "r \<in> set (runningTasks s ws)" using m w run a by (simp add: runningTasks_def)
  have "bulk_log now actor startb r \<in> set (drop (length (workLogs s)) (workLogs ?sb))"
    using rt a by (force simp: stopAll_workLogs(1) [OF sa])
  then show "\<exists>wl \<in> set (drop (length (workLogs s)) (workLogs ?sb)).
            wl_taskId wl = task_id r \<and> startedAt wl = startb \<and> stoppedAt wl = now \<and>
            durationMinutes wl = max 1 (max 1 ((now - startb) div 1000) div 60)"
    by (rule rev_bexI) (simp add: bulk_log_def)
  have "findById ?sb (task_id r) = Some (accounted now startb r)"
    using stopAll_task_found [OF u sa m] w run a by (simp add: stopped_doc_def)
  then show "\<exists>r'. findById ?sb (task_id r) = Some r' \<and>
            totalSecondsSpent r' =
              Some ((case totalSecondsSpent r of Some x \<Rightarrow> x
                     | None \<Rightarrow> (case totalMinutesSpent r of Some m \<Rightarrow> m | None \<Rightarrow> 0) * 60)
                    + max 1 ((now - startb) div 1000)) \<and>
            totalMinutesSpent r' =
              Some (((case totalSecondsSpent r of Some x \<Rightarrow> x
                      | None \<Rightarrow> (case totalMinutesSpent r of Some m \<Rightarrow> m | None \<Rightarrow> 0) * 60)
                     + max 1 ((now - startb) div 1000)) div 60)"
    by (simp add: accounted_fields)
qed

theorem stop_accounting_exact_witness:
  "ensureTaskTimerAccess ex_roles ex_db1 ''t1'' ''alice'' = Inr ex_t1_running \<and>
   isRunning ex_t1_running \<and> activeStartAt ex_t1_running = Some 1000 \<and>
   stopTaskTimerService ex_roles 91000 ex_db1 ''t1'' ''alice'' ex_body =
     (Inr ex_t1_stopped, ex_db2) \<and>
   workLogs ex_db2 = workLogs ex_db1 @ [ex_log1] \<and> durationMinutes ex_log1 = 1 \<and>
   totalSecondsSpent ex_t1_stopped = Some 90 \<and> totalMinutesSpent ex_t1_stopped = Some 1 \<and>
   stopTaskTimerService ex_roles 1400 ex_db1 ''t1'' ''alice'' ex_body =
     (Inr (ex_t1_stopped\<lparr>lastStoppedAt := Some 1400, totalSecondsSpent := Some 1,
                          totalMinutesSpent := Some 0\<rparr>),
      \<lparr>tasks = [ex_t1_stopped\<lparr>lastStoppedAt := Some 1400, totalSecondsSpent := Some 1,
                               totalMinutesSpent := Some 0\<rparr>, ex_t2, ex_t3],
       workLogs = [ex_log1\<lparr>stoppedAt := 1400\<rparr>]\<rparr>) \<and>
   durationMinutes (ex_log1\<lparr>stoppedAt := 1400\<rparr>) = 1 \<and>
   stopTaskTimerService ex_roles 46000 ex_db1 ''t1'' ''alice'' ex_body =
     (Inr (ex_t1_stopped\<lparr>lastStoppedAt := Some 46000, totalSecondsSpent := Some 45,
                          totalMinutesSpent := Some 0\<rparr>),
      \<lparr>tasks = [ex_t1_stopped\<lparr>lastStoppedAt := Some 46000, totalSecondsSpent := Some 45,
                               totalMinutesSpent := Some 0\<rparr>, ex_t2, ex_t3],
       workLogs = [ex_log1\<lparr>stoppedAt := 46000\<rparr>]\<rparr>) \<and>
   fst (stopTaskTimerService ex_roles 91000 ex_db1 ''t2'' ''admin'' ex_body) =
     Inr (ex_t2_stopped\<lparr>pagesCompleted := Some 3\<rparr>) \<and>
   ensureTaskTimerAccess ex_roles ex_db1 ''t2'' ''admin'' = Inr ex_t2 \<and>
   ex_roles ''admin'' ''w1'' = Inr ADMIN \<and> unique_ids ex_db1 \<and>
   stopAllRunningTaskTimersService ex_roles 91000 ex_db1 ''w1'' ''admin'' = (Inr 2, ex_db3) \<and>
   ex_t2 \<in> set (tasks ex_db1) \<and> workspace ex_t2 = ''w1'' \<and> isRunning ex_t2 \<and>
   activeStartAt ex_t2 = Some 31000 \<and>
   findById ex_db3 (task_id ex_t2) = Some ex_t2_stopped \<and>
   totalSecondsSpent ex_t2_stopped = Some 480 \<and> totalMinutesSpent ex_t2_stopped = Some 8"
  using stop_accounting_exact [where roleOf = ex_roles and s = ex_db1 and taskId = "''t1''"
      and userId = "''alice''" and t = ex_t1_running and start = 1000 and now = 91000
      and body = ex_body and actor = "''admin''" and ws = "''w1''" and role = ADMIN
      and r = ex_t2 and startb = 31000]
    stop_accounting_exact [where roleOf = ex_roles and s = ex_db1 and taskId = "''t1''"
      and userId = "''alice''" and t = ex_t1_running and start = 1000 and now = 1400
      and body = ex_body]
    stop_accounting_exact [where roleOf = ex_roles and s = ex_db1 and taskId = "''t1''"
      and userId = "''alice''" and t = ex_t1_running and start = 1000 and now = 46000
      and body = ex_body]
    stop_accounting_exact [where roleOf = ex_roles and s = ex_db1 and taskId = "''t2''"
      and userId = "''admin''" and now = 91000 and body = ex_body
      and tb = "ex_t2_stopped\<lparr>pagesCompleted := Some 3\<rparr>"]
  by (simp add: ex_defs service_defs)

text \<open>
  Claim C2. The three timer operations keep the invariant that a task is running
  exactly when it has an \<open>activeStartAt\<close>: if every stored task satisfies it before
  \<open>start\<close>, \<open>stop\<close> or \<open>stopAll\<close>, every stored task satisfies it afterwards, whether
  the operation succeeds or throws. The task a successful \<open>start\<close> returns is running
  with \<open>activeStartAt = now\<close>; the task a successful \<open>stop\<close> returns is idle without one.
\<close>

theorem timer_invariant_preserved:
  "(list_all timer_consistent (tasks s) \<longrightarrow>
      list_all timer_consistent (tasks (snd (startTaskTimerService roleOf now s taskId userId))) \<and>
      list_all timer_consistent (tasks (snd (stopTaskTimerService roleOf now s taskId userId body))) \<and>
      list_all timer_consistent
        (tasks (snd (stopAllRunningTaskTimersService roleOf now s ws userId)))) \<and>
   (fst (startTaskTimerService roleOf now s taskId userId) = Inr ta \<longrightarrow>
      isRunning ta \<and> activeStartAt ta = Some now) \<and>
   (fst (stopTaskTimerService roleOf now s taskId userId body) = Inr tb \<longrightarrow>
      \<not> isRunning tb \<and> activeStartAt tb = None)"
proof (intro conjI impI)
  assume inv: "list_all timer_consistent (tasks s)"
  show "list_all timer_consistent (tasks (snd (startTaskTimerService roleOf now s taskId userId)))"
  proof (cases "fst (startTaskTimerService roleOf now s taskId userId)")
    case (Inl e)
    with inv show ?thesis by (simp add: start_failure_unchanged)
  next
    case (Inr t')
    then obtain t where e: "ensureTaskTimerAccess roleOf s taskId userId = Inr t"
      and r: "\<not> isRunning t" by (rule start_cases)
    show ?thesis using inv
      by (simp add: start_eq [OF e r] list_all_save timer_consistent_def)
  qed
  show "list_all timer_consistent
          (tasks (snd (stopTaskTimerService roleOf now s taskId userId body)))"
  proof (cases "fst (stopTaskTimerService roleOf now s taskId userId body)")
    case (Inl e)
    with inv show ?thesis by (simp add: stop_failure_unchanged)
  next
    case (Inr t')
    then obtain t start where e: "ensureTaskTimerAccess roleOf s taskId userId = Inr t"
      and a: "activeStartAt t = Some start" and r: "isRunning t" by (rule stop_cases_fst)
    have "timer_consistent (with_body body (accounted now start t))"
      by (simp add: timer_consistent_def with_body_fields accounted_fields)
    then show ?thesis using inv
      by (simp add: stop_eq [OF e a r] list_all_save)
  qed
  show "list_all timer_consistent
          (tasks (snd (stopAllRunningTaskTimersService roleOf now s ws userId)))"
  proof (cases "fst (stopAllRunningTaskTimersService roleOf now s ws userId)")
    case (Inl e)
    with inv show ?thesis by (simp add: stopAll_failure_unchanged)
  next
    case (Inr n)
    from stopAll_cases_fst [OF Inr] obtain role where r1: "roleOf userId ws = Inr role"
      and r2: "role = OWNER \<or> role = ADMIN" by (rule stopAll_cases)
    show ?thesis using inv
      by (simp add: stopAll_eq [of roleOf userId ws role now s, OF r1 r2] list_all_fold_stop)
  qed
next
  assume f: "fst (startTaskTimerService roleOf now s taskId userId) = Inr ta"
  then obtain t where e: "ensureTaskTimerAccess roleOf s taskId userId = Inr t"
    and r: "\<not> isRunning t" by (rule start_cases)
  from f show "isRunning ta" and "activeStartAt ta = Some now"
    by (auto simp: start_eq [OF e r])
next
  assume f: "fst (stopTaskTimerService roleOf now s taskId userId body) = Inr tb"
  then obtain t start where e: "ensureTaskTimerAccess roleOf s taskId userId = Inr t"
    and a: "activeStartAt t = Some start" and r: "isRunning t" by (rule stop_cases_fst)
  from f show "\<not> isRunning tb" and "activeStartAt tb = None"
    by (auto simp: stop_eq [OF e a r] with_body_fields accounted_fields)
qed

theorem timer_invariant_preserved_witness:
  "list_all timer_consistent (tasks ex_db1) \<and>
   list_all timer_consistent (tasks (snd (startTaskTimerService ex_roles 91000 ex_db1 ''t1'' ''admin''))) \<and>
   snd (stopTaskTimerService ex_roles 91000 ex_db1 ''t1'' ''admin'' ex_body) \<noteq> ex_db1 \<and>
   list_all timer_consistent (tasks (snd (stopTaskTimerService ex_roles 91000 ex_db1 ''t1'' ''admin'' ex_body))) \<and>
   snd (stopAllRunningTaskTimersService ex_roles 91000 ex_db1 ''w1'' ''admin'') = ex_db3 \<and>
   list_all timer_consistent (tasks ex_db3) \<and>
   list_all timer_consistent (tasks ex_db0) \<and>
   fst (startTaskTimerService ex_roles 1000 ex_db0 ''t1'' ''alice'') = Inr ex_t1_running \<and>
   isRunning ex_t1_running \<and> activeStartAt ex_t1_running = Some 1000 \<and>
   fst (stopTaskTimerService ex_roles 91000 ex_db1 ''t1'' ''alice'' ex_body) = Inr ex_t1_stopped \<and>
   \<not> isRunning ex_t1_stopped \<and> activeStartAt ex_t1_stopped = None"
  using timer_invariant_preserved [where s = ex_db1 and roleOf = ex_roles and now = 91000
      and taskId = "''t1''" and userId = "''admin''" and body = ex_body and ws = "''w1''"]
    timer_invariant_preserved [where s = ex_db1 and roleOf = ex_roles and now = 91000
      and taskId = "''t1''" and userId = "''alice''" and body = ex_body and tb = ex_t1_stopped]
    timer_invariant_preserved [where s = ex_db0 and roleOf = ex_roles and now = 1000
      and taskId = "''t1''" and userId = "''alice''" and ta = ex_t1_running]
  by (simp add: ex_defs service_defs timer_consistent_def)

text \<open>
  Claim C3, as amended. The access check comes first in both services, so an actor who
  fails it gets the error of the access check, not a conflict. For an actor who passes
  the access check: \<open>start\<close> on a running task throws the \<open>HttpException\<close> with status
  \<open>CONFLICT\<close>, and \<open>stop\<close> on a task that is not running throws the \<open>HttpException\<close>
  with status \<open>CONFLICT\<close>. An actor who fails the access check gets the error of the
  access check from both services, whatever the state of the timer. Whenever \<open>start\<close>
  or \<open>stop\<close> throws, the database is left as it was: no timer field of any task changes
  and no work log is created.
\<close>

theorem timer_conflict_after_access:
  "(ensureTaskTimerAccess roleOf s taskId userId = Inr t \<and> isRunning t \<longrightarrow>
      startTaskTimerService roleOf now s taskId userId =
        (Inl (HttpException ''Task timer is already running.'' CONFLICT), s) \<and>
      error_class (HttpException ''Task timer is already running.'' CONFLICT) = CONFLICT) \<and>
   (ensureTaskTimerAccess roleOf s taskId userId = Inr t \<and> \<not> isRunning t \<longrightarrow>
      stopTaskTimerService roleOf now s taskId userId body =
        (Inl (HttpException ''Task timer is not running.'' CONFLICT), s) \<and>
      error_class (HttpException ''Task timer is not running.'' CONFLICT) = CONFLICT) \<and>
   (fst (startTaskTimerService roleOf now s taskId userId) = Inl e \<longrightarrow>
      snd (startTaskTimerService roleOf now s taskId userId) = s) \<and>
   (fst (stopTaskTimerService roleOf now s taskId userId body) = Inl e \<longrightarrow>
      snd (stopTaskTimerService roleOf now s taskId userId body) = s) \<and>
   (ensureTaskTimerAccess roleOf s taskId userId = Inl ea \<longrightarrow>
      startTaskTimerService roleOf now s taskId userId = (Inl ea, s) \<and>
      stopTaskTimerService roleOf now s taskId userId body = (Inl ea, s))"
proof (intro conjI impI; (elim conjE)?)
  assume "ensureTaskTimerAccess roleOf s taskId userId = Inl ea"
  then show "startTaskTimerService roleOf now s taskId userId = (Inl ea, s)"
    and "stopTaskTimerService roleOf now s taskId userId body = (Inl ea, s)"
    by (simp_all add: startTaskTimerService_def stopTaskTimerService_def)
next
  assume "ensureTaskTimerAccess roleOf s taskId userId = Inr t" and "isRunning t"
  then show "startTaskTimerService roleOf now s taskId userId =
        (Inl (HttpException ''Task timer is already running.'' CONFLICT), s)"
    by (simp add: startTaskTimerService_def)
next
  assume "ensureTaskTimerAccess roleOf s taskId userId = Inr t" and "\<not> isRunning t"
  then show "stopTaskTimerService roleOf now s taskId userId body =
        (Inl (HttpException ''Task timer is not running.'' CONFLICT), s)"
    by (simp add: stopTaskTimerService_def split: option.split)
next
  assume "fst (startTaskTimerService roleOf now s taskId userId) = Inl e"
  then show "snd (startTaskTimerService roleOf now s taskId userId) = s"
    by (rule start_failure_unchanged)
next
  assume "fst (stopTaskTimerService roleOf now s taskId userId body) = Inl e"
  then show "snd (stopTaskTimerService roleOf now s taskId userId body) = s"
    by (rule stop_failure_unchanged)
qed simp_all

theorem timer_conflict_after_access_witness:
  "ensureTaskTimerAccess ex_roles ex_db1 ''t1'' ''alice'' = Inr ex_t1_running \<and>
   isRunning ex_t1_running \<and>
   startTaskTimerService ex_roles 5000 ex_db1 ''t1'' ''alice'' =
     (Inl (HttpException ''Task timer is already running.'' CONFLICT), ex_db1) \<and>
   ensureTaskTimerAccess ex_roles ex_db0 ''t1'' ''alice'' = Inr ex_t1 \<and> \<not> isRunning ex_t1 \<and>
   stopTaskTimerService ex_roles 5000 ex_db0 ''t1'' ''alice'' ex_body =
     (Inl (HttpException ''Task timer is not running.'' CONFLICT), ex_db0) \<and>
   fst (stopTaskTimerService ex_roles 5000 ex_db0 ''t1'' ''alice'' ex_body) =
     Inl (HttpException ''Task timer is not running.'' CONFLICT) \<and>
   snd (stopTaskTimerService ex_roles 5000 ex_db0 ''t1'' ''alice'' ex_body) = ex_db0 \<and>
   fst (startTaskTimerService ex_roles 5000 ex_db1 ''t1'' ''alice'') =
     Inl (HttpException ''Task timer is already running.'' CONFLICT) \<and>
   snd (startTaskTimerService ex_roles 5000 ex_db1 ''t1'' ''alice'') = ex_db1 \<and>
   ensureTaskTimerAccess ex_roles ex_db1 ''t1'' ''bob'' =
     Inl (UnauthorizedException ''You do not have permission to manage this task timer.'') \<and>
   startTaskTimerService ex_roles 5000 ex_db1 ''t1'' ''bob'' =
     (Inl (UnauthorizedException ''You do not have permission to manage this task timer.''),
      ex_db1) \<and>
   stopTaskTimerService ex_roles 5000 ex_db1 ''t1'' ''bob'' ex_body =
     (Inl (UnauthorizedException ''You do not have permission to manage this task timer.''),
      ex_db1) \<and>
   ensureTaskTimerAccess ex_roles ex_db1 ''t9'' ''admin'' = Inl (NotFoundException ''Task not found.'') \<and>
   startTaskTimerService ex_roles 5000 ex_db1 ''t9'' ''admin'' =
     (Inl (NotFoundException ''Task not found.''), ex_db1)"
  using timer_conflict_after_access [where roleOf = ex_roles and s = ex_db1 and taskId = "''t1''"
      and userId = "''bob''" and now = 5000 and body = ex_body
      and ea = "UnauthorizedException ''You do not have permission to manage this task timer.''"]
    timer_conflict_after_access [where roleOf = ex_roles and s = ex_db1 and taskId = "''t9''"
      and userId = "''admin''" and now = 5000 and body = ex_body
      and ea = "NotFoundException ''Task not found.''"]
    timer_conflict_after_access [where roleOf = ex_roles and s = ex_db1 and taskId = "''t1''"
      and userId = "''alice''" and t = ex_t1_running and now = 5000 and body = ex_body
      and e = "HttpException ''Task timer is already running.'' CONFLICT"]
    timer_conflict_after_access [where roleOf = ex_roles and s = ex_db0 and taskId = "''t1''"
      and userId = "''alice''" and t = ex_t1 and now = 5000 and body = ex_body
      and e = "HttpException ''Task timer is not running.'' CONFLICT"]
  by (simp add: ex_defs service_defs)

text \<open>
  The claim as it was written fails: \<open>alice\<close>, a \<open>MEMBER\<close>, is not the assignee of
  the running task \<open>t3\<close> and gets \<open>UnauthorizedException\<close> from \<open>start\<close>; \<open>bob\<close>, a
  \<open>MEMBER\<close>, is not the assignee of the idle task \<open>t1\<close> and gets \<open>UnauthorizedException\<close>
  from \<open>stop\<close>. Neither error is of the Conflict class.
\<close>

theorem timer_conflict_counterexample:
  "findById ex_db0 ''t3'' = Some ex_t3 \<and> isRunning ex_t3 \<and>
   fst (startTaskTimerService ex_roles 5000 ex_db0 ''t3'' ''alice'') =
     Inl (UnauthorizedException ''You do not have permission to manage this task timer.'') \<and>
   findById ex_db0 ''t1'' = Some ex_t1 \<and> \<not> isRunning ex_t1 \<and>
   fst (stopTaskTimerService ex_roles 5000 ex_db0 ''t1'' ''bob'' ex_body) =
     Inl (UnauthorizedException ''You do not have permission to manage this task timer.'') \<and>
   error_class (UnauthorizedException ''You do not have permission to manage this task timer.'')
     \<noteq> CONFLICT"
  by (simp add: ex_defs service_defs)

text \<open>
  Claim C7. \<open>start\<close> and \<open>stop\<close> return a task only if the task exists and the actor's
  role in the task's workspace is \<open>OWNER\<close> or \<open>ADMIN\<close> or the actor is the task's
  assignee. For a task that exists and an actor whose role in its workspace resolves,
  the access check lets the actor through exactly in those cases, and every other such
  actor gets \<open>UnauthorizedException\<close> from both services, the database unchanged.
\<close>

theorem timer_access_rule:
  "(fst (startTaskTimerService roleOf now s taskId userId) = Inr ta \<or>
    fst (stopTaskTimerService roleOf now s taskId userId body) = Inr tb \<longrightarrow>
      (\<exists>t role. findById s taskId = Some t \<and> roleOf userId (workspace t) = Inr role \<and>
                (role = OWNER \<or> role = ADMIN \<or> assignedTo t = Some userId))) \<and>
   (findById s taskId = Some t \<and> roleOf userId (workspace t) = Inr role \<longrightarrow>
      (ensureTaskTimerAccess roleOf s taskId userId = Inr t \<longleftrightarrow>
         role = OWNER \<or> role = ADMIN \<or> assignedTo t = Some userId) \<and>
      (\<not> (role = OWNER \<or> role = ADMIN \<or> assignedTo t = Some userId) \<longrightarrow>
         startTaskTimerService roleOf now s taskId userId =
           (Inl (UnauthorizedException
                   ''You do not have permission to manage this task timer.''), s) \<and>
         stopTaskTimerService roleOf now s taskId userId body =
           (Inl (UnauthorizedException
                   ''You do not have permission to manage this task timer.''), s) \<and>
         error_class (UnauthorizedException
                   ''You do not have permission to manage this task timer.'') = UNAUTHORIZED))"
proof (intro conjI impI)
  assume "fst (startTaskTimerService roleOf now s taskId userId) = Inr ta \<or>
    fst (stopTaskTimerService roleOf now s taskId userId body) = Inr tb"
  then obtain t0 where e: "ensureTaskTimerAccess roleOf s taskId userId = Inr t0"
  proof (elim disjE)
    assume "fst (startTaskTimerService roleOf now s taskId userId) = Inr ta"
    then show ?thesis by (rule start_cases) (rule that)
  next
    assume "fst (stopTaskTimerService roleOf now s taskId userId body) = Inr tb"
    then show ?thesis by (rule stop_cases_fst) (rule that)
  qed
  from ensure_Inr_find [OF e] ensure_Inr_role [OF e]
  show "\<exists>t role. findById s taskId = Some t \<and> roleOf userId (workspace t) = Inr role \<and>
                (role = OWNER \<or> role = ADMIN \<or> assignedTo t = Some userId)"
    by blast
next
  assume a: "findById s taskId = Some t \<and> roleOf userId (workspace t) = Inr role"
  then have f: "findById s taskId = Some t" and r: "roleOf userId (workspace t) = Inr role"
    by simp_all
  note ec = ensure_cases [of s taskId t roleOf userId role, OF f r]
  show "ensureTaskTimerAccess roleOf s taskId userId = Inr t \<longleftrightarrow>
         role = OWNER \<or> role = ADMIN \<or> assignedTo t = Some userId"
    by (simp add: ec)
  have e: "ensureTaskTimerAccess roleOf s taskId userId =
        Inl (UnauthorizedException ''You do not have permission to manage this task timer.'')"
    if "\<not> (role = OWNER \<or> role = ADMIN \<or> assignedTo t = Some userId)"
    using that by (simp add: ec)
  show "startTaskTimerService roleOf now s taskId userId =
           (Inl (UnauthorizedException
                   ''You do not have permission to manage this task timer.''), s)"
    if "\<not> (role = OWNER \<or> role = ADMIN \<or> assignedTo t = Some userId)"
    by (simp add: e [OF that] startTaskTimerService_def)
  show "stopTaskTimerService roleOf now s taskId userId body =
           (Inl (UnauthorizedException
                   ''You do not have permission to manage this task timer.''), s)"
    if "\<not> (role = OWNER \<or> role = ADMIN \<or> assignedTo t = Some userId)"
    by (simp add: e [OF that] stopTaskTimerService_def)
  show "error_class (UnauthorizedException
                   ''You do not have permission to manage this task timer.'') = UNAUTHORIZED"
    by simp
qed

theorem timer_access_rule_witness:
  "findById ex_db0 ''t1'' = Some ex_t1 \<and> ex_roles ''bob'' (workspace ex_t1) = Inr MEMBER \<and>
   assignedTo ex_t1 \<noteq> Some ''bob'' \<and>
   startTaskTimerService ex_roles 1000 ex_db0 ''t1'' ''bob'' =
     (Inl (UnauthorizedException ''You do not have permission to manage this task timer.''),
      ex_db0) \<and>
   stopTaskTimerService ex_roles 1000 ex_db0 ''t1'' ''bob'' ex_body =
     (Inl (UnauthorizedException ''You do not have permission to manage this task timer.''),
      ex_db0) \<and>
   ex_roles ''alice'' (workspace ex_t1) = Inr MEMBER \<and> assignedTo ex_t1 = Some ''alice'' \<and>
   ensureTaskTimerAccess ex_roles ex_db0 ''t1'' ''alice'' = Inr ex_t1 \<and>
   fst (startTaskTimerService ex_roles 1000 ex_db0 ''t1'' ''alice'') = Inr ex_t1_running \<and>
   ex_roles ''admin'' (workspace ex_t1) = Inr ADMIN \<and>
   ensureTaskTimerAccess ex_roles ex_db0 ''t1'' ''admin'' = Inr ex_t1 \<and>
   fst (stopTaskTimerService ex_roles 91000 ex_db1 ''t1'' ''admin'' ex_body) =
     Inr ex_t1_stopped"
  using timer_access_rule [where s = ex_db0 and taskId = "''t1''" and t = ex_t1
      and roleOf = ex_roles and userId = "''bob''" and role = MEMBER and now = 1000
      and body = ex_body]
    timer_access_rule [where s = ex_db0 and taskId = "''t1''" and t = ex_t1
      and roleOf = ex_roles and userId = "''alice''" and role = MEMBER and now = 1000
      and body = ex_body and ta = ex_t1_running]
    timer_access_rule [where s = ex_db0 and taskId = "''t1''" and t = ex_t1
      and roleOf = ex_roles and userId = "''admin''" and role = ADMIN and now = 1000
      and body = ex_body]
    timer_access_rule [where s = ex_db1 and taskId = "''t1''" and t = ex_t1_running
      and roleOf = ex_roles and userId = "''admin''" and role = ADMIN and now = 91000
      and body = ex_body and tb = ex_t1_stopped]
  by (simp add: ex_defs service_defs)

text \<open>
  Claim C5. For a privileged actor (\<open>OWNER\<close> or \<open>ADMIN\<close>), the bulk stop returns as
  \<open>stoppedCount\<close> the number \<open>N\<close> of tasks of the workspace that its query finds running,
  and appends exactly \<open>N\<close> work logs to the ledger, one per stopped task in the order of
  the query's result, leaving the older logs as they were. With no running task it
  returns 0 and leaves the database unchanged. Under the timer invariant, \<open>N\<close> is
  the number of the workspace's tasks with \<open>isRunning\<close>. With unique ids, each of
  those \<open>N\<close> tasks is stored afterwards as stopped (not running, no \<open>activeStartAt\<close>,
  \<open>lastStoppedAt = now\<close>), every other task is stored as it was, and the workspace has
  no running task left.
\<close>

theorem stopAll_count:
  assumes "roleOf userId ws = Inr role" and "role = OWNER \<or> role = ADMIN"
  shows "fst (stopAllRunningTaskTimersService roleOf now s ws userId) =
           Inr (length (runningTasks s ws)) \<and>
         length (workLogs (snd (stopAllRunningTaskTimersService roleOf now s ws userId))) =
           length (workLogs s) + length (runningTasks s ws) \<and>
         take (length (workLogs s))
           (workLogs (snd (stopAllRunningTaskTimersService roleOf now s ws userId))) = workLogs s \<and>
         map wl_taskId (drop (length (workLogs s))
           (workLogs (snd (stopAllRunningTaskTimersService roleOf now s ws userId)))) =
           map task_id (runningTasks s ws) \<and>
         (runningTasks s ws = [] \<longrightarrow>
            stopAllRunningTaskTimersService roleOf now s ws userId = (Inr 0, s)) \<and>
         (list_all timer_consistent (tasks s) \<longrightarrow>
            length (runningTasks s ws) =
              length (filter (\<lambda>d. workspace d = ws \<and> isRunning d) (tasks s))) \<and>
         (unique_ids s \<longrightarrow>
            list_all
              (\<lambda>r. \<exists>r'. findById (snd (stopAllRunningTaskTimersService roleOf now s ws userId))
                             (task_id r) = Some r' \<and>
                         \<not> isRunning r' \<and> activeStartAt r' = None \<and>
                         lastStoppedAt r' = Some now)
              (runningTasks s ws) \<and>
            list_all
              (\<lambda>d. findById (snd (stopAllRunningTaskTimersService roleOf now s ws userId))
                        (task_id d) = Some d)
              (filter (\<lambda>d. \<not> (workspace d = ws \<and> isRunning d \<and> activeStartAt d \<noteq> None))
                 (tasks s)) \<and>
            runningTasks (snd (stopAllRunningTaskTimersService roleOf now s ws userId)) ws = [])"
proof -
  note eq = stopAll_eq [of roleOf userId ws role now s, OF assms]
  have sa: "stopAllRunningTaskTimersService roleOf now s ws userId =
      (Inr (length (runningTasks s ws)),
       snd (stopAllRunningTaskTimersService roleOf now s ws userId))" by (simp add: eq)
  have logs: "workLogs (snd (stopAllRunningTaskTimersService roleOf now s ws userId)) =
      workLogs s @ map (\<lambda>r. bulk_log now userId (the (activeStartAt r)) r) (runningTasks s ws)"
    by (simp add: eq workLogs_fold_stop [OF runningTasks_active])
  have ids: "map wl_taskId (map (\<lambda>r. bulk_log now userId (the (activeStartAt r)) r)
      (runningTasks s ws)) = map task_id (runningTasks s ws)"
    by (simp add: bulk_log_def comp_def)
  have inv: "list_all timer_consistent (tasks s) \<Longrightarrow>
      runningTasks s ws = filter (\<lambda>d. workspace d = ws \<and> isRunning d) (tasks s)"
    unfolding runningTasks_def
    by (rule filter_cong) (auto simp: list_all_iff timer_consistent_def)
  show ?thesis
  proof (intro conjI impI)
    show "fst (stopAllRunningTaskTimersService roleOf now s ws userId) =
           Inr (length (runningTasks s ws))" by (simp add: eq)
    show "length (workLogs (snd (stopAllRunningTaskTimersService roleOf now s ws userId))) =
           length (workLogs s) + length (runningTasks s ws)" by (simp add: logs)
    show "take (length (workLogs s))
           (workLogs (snd (stopAllRunningTaskTimersService roleOf now s ws userId))) = workLogs s"
      by (simp add: logs)
    show "map wl_taskId (drop (length (workLogs s))
           (workLogs (snd (stopAllRunningTaskTimersService roleOf now s ws userId)))) =
           map task_id (runningTasks s ws)"
      using ids by (simp add: logs)
    show "stopAllRunningTaskTimersService roleOf now s ws userId = (Inr 0, s)"
      if "runningTasks s ws = []" using that by (simp add: eq)
    show "length (runningTasks s ws) =
              length (filter (\<lambda>d. workspace d = ws \<and> isRunning d) (tasks s))"
      if "list_all timer_consistent (tasks s)" using inv [OF that] by simp
    show "list_all
              (\<lambda>r. \<exists>r'. findById (snd (stopAllRunningTaskTimersService roleOf now s ws userId))
                             (task_id r) = Some r' \<and>
                         \<not> isRunning r' \<and> activeStartAt r' = None \<and>
                         lastStoppedAt r' = Some now)
              (runningTasks s ws)" if u: "unique_ids s"
      unfolding list_all_iff
    proof
      fix r assume r: "r \<in> set (runningTasks s ws)"
      then have m: "r \<in> set (tasks s)" and q: "workspace r = ws \<and> isRunning r"
        by (simp_all add: runningTasks_def)
      from r obtain start where a: "activeStartAt r = Some start"
        by (auto simp: runningTasks_def)
      have "findById (snd (stopAllRunningTaskTimersService roleOf now s ws userId)) (task_id r) =
          Some (accounted now start r)"
        using stopAll_task_found [OF u sa m] q a by (simp add: stopped_doc_def)
      then show "\<exists>r'. findById (snd (stopAllRunningTaskTimersService roleOf now s ws userId))
                             (task_id r) = Some r' \<and>
                         \<not> isRunning r' \<and> activeStartAt r' = None \<and>
                         lastStoppedAt r' = Some now"
        by (simp add: accounted_fields)
    qed
    show "list_all
              (\<lambda>d. findById (snd (stopAllRunningTaskTimersService roleOf now s ws userId))
                        (task_id d) = Some d)
              (filter (\<lambda>d. \<not> (workspace d = ws \<and> isRunning d \<and> activeStartAt d \<noteq> None))
                 (tasks s))" if u: "unique_ids s"
      unfolding list_all_iff
    proof
      fix d
      assume "d \<in> set (filter (\<lambda>d. \<not> (workspace d = ws \<and> isRunning d \<and>
          activeStartAt d \<noteq> None)) (tasks s))"
      then have m: "d \<in> set (tasks s)"
        and q: "\<not> (workspace d = ws \<and> isRunning d \<and> activeStartAt d \<noteq> None)" by simp_all
      show "findById (snd (stopAllRunningTaskTimersService roleOf now s ws userId))
                        (task_id d) = Some d"
        using stopAll_task_found [OF u sa m] q by auto
    qed
    show "runningTasks (snd (stopAllRunningTaskTimersService roleOf now s ws userId)) ws = []"
      if u: "unique_ids s"
    proof -
      have "\<not> isRunning (stopped_doc now d)" if "activeStartAt d \<noteq> None" for d
        using that by (auto simp: stopped_doc_def accounted_fields)
      then show ?thesis
        unfolding runningTasks_def stopAll_tasks_result [OF u sa]
        by (auto simp: filter_empty_conv)
    qed
  qed
qed

theorem stopAll_count_witness:
  "ex_roles ''admin'' ''w1'' = Inr ADMIN \<and>
   length (runningTasks ex_db1 ''w1'') = 2 \<and>
   stopAllRunningTaskTimersService ex_roles 91000 ex_db1 ''w1'' ''admin'' = (Inr 2, ex_db3) \<and>
   length (workLogs ex_db3) = length (workLogs ex_db1) + 2 \<and>
   map wl_taskId (drop (length (workLogs ex_db1)) (workLogs ex_db3)) = [''t1'', ''t2''] \<and>
   list_all timer_consistent (tasks ex_db1) \<and>
   length (filter (\<lambda>d. workspace d = ''w1'' \<and> isRunning d) (tasks ex_db1)) = 2 \<and>
   unique_ids ex_db1 \<and> runningTasks ex_db1 ''w1'' = [ex_t1_running, ex_t2] \<and>
   map isRunning (tasks ex_db3) = [False, False, True] \<and>
   map activeStartAt (tasks ex_db3) = [None, None, Some 700] \<and>
   map lastStoppedAt (tasks ex_db3) = [Some 91000, Some 91000, None] \<and>
   findById ex_db3 ''t3'' = Some ex_t3 \<and> runningTasks ex_db3 ''w1'' = [] \<and>
   ex_roles ''admin'' ''w9'' = Inr ADMIN \<and> runningTasks ex_db1 ''w9'' = [] \<and>
   stopAllRunningTaskTimersService ex_roles 91000 ex_db1 ''w9'' ''admin'' = (Inr 0, ex_db1)"
  using stopAll_count [where roleOf = ex_roles and userId = "''admin''" and ws = "''w1''"
      and role = ADMIN and now = 91000 and s = ex_db1]
    stopAll_count [where roleOf = ex_roles and userId = "''admin''" and ws = "''w9''"
      and role = ADMIN and now = 91000 and s = ex_db1]
  by (simp add: ex_defs service_defs timer_consistent_def)

text \<open>
  Claim C6. The work logs that a successful bulk stop appends carry, task by task, the
  task's assignee as acting user; the task's creator when it has no assignee; and the
  invoking actor only when it has neither.
\<close>

theorem stopAll_log_user:
  assumes "fst (stopAllRunningTaskTimersService roleOf now s ws userId) = Inr n"
  shows "map (\<lambda>wl. (wl_taskId wl, wl_userId wl))
           (drop (length (workLogs s))
              (workLogs (snd (stopAllRunningTaskTimersService roleOf now s ws userId)))) =
         map (\<lambda>t. (task_id t,
                    case assignedTo t of
                      Some a \<Rightarrow> a
                    | None \<Rightarrow> (case createdBy t of Some c \<Rightarrow> c | None \<Rightarrow> userId)))
           (runningTasks s ws)"
  by (simp add: stopAll_workLogs(1) [OF stopAll_cases_fst [OF assms]] bulk_log_def comp_def)

theorem stopAll_log_user_witness:
  "fst (stopAllRunningTaskTimersService ex_roles 91000
          (ex_db1\<lparr>tasks := tasks ex_db1 @ [ex_t3\<lparr>workspace := ''w1'', assignedTo := None,
                                                createdBy := None\<rparr>]\<rparr>) ''w1'' ''admin'') = Inr 3 \<and>
   map (\<lambda>wl. (wl_taskId wl, wl_userId wl))
     (workLogs (snd (stopAllRunningTaskTimersService ex_roles 91000
          (ex_db1\<lparr>tasks := tasks ex_db1 @ [ex_t3\<lparr>workspace := ''w1'', assignedTo := None,
                                                createdBy := None\<rparr>]\<rparr>) ''w1'' ''admin''))) =
     [(''t1'', ''alice''), (''t2'', ''bob''), (''t3'', ''admin'')]"
  using stopAll_log_user [where roleOf = ex_roles and now = 91000 and ws = "''w1''"
      and userId = "''admin''" and n = 3
      and s = "ex_db1\<lparr>tasks := tasks ex_db1 @ [ex_t3\<lparr>workspace := ''w1'', assignedTo := None,
                                                      createdBy := None\<rparr>]\<rparr>"]
  by (simp add: ex_defs service_defs)

text \<open>
  Claim C9. A successful \<open>start\<close> sets \<open>firstStartedAt\<close> to the current time when the task
  has none and leaves it as it is when the task has one, and always sets
  \<open>activeStartAt\<close> to the current time. With unique ids, neither \<open>stop\<close> nor the bulk
  stop changes the \<open>firstStartedAt\<close> of any stored task.
\<close>

theorem firstStartedAt_set_once:
  "(findById s taskId = Some t \<and>
    startTaskTimerService roleOf now s taskId userId = (Inr t', s') \<longrightarrow>
      firstStartedAt t' = (case firstStartedAt t of None \<Rightarrow> Some now | Some f \<Rightarrow> Some f) \<and>
      activeStartAt t' = Some now \<and> isRunning t' \<and> findById s' taskId = Some t') \<and>
   (unique_ids s \<longrightarrow>
      map firstStartedAt (tasks (snd (stopTaskTimerService roleOf now s taskId userId body))) =
        map firstStartedAt (tasks s) \<and>
      map firstStartedAt (tasks (snd (stopAllRunningTaskTimersService roleOf now s ws actor))) =
        map firstStartedAt (tasks s))"
proof (intro conjI impI; (elim conjE)?)
  assume f: "findById s taskId = Some t"
    and st: "startTaskTimerService roleOf now s taskId userId = (Inr t', s')"
  note res = start_result [OF f st]
  show "firstStartedAt t' = (case firstStartedAt t of None \<Rightarrow> Some now | Some f \<Rightarrow> Some f)"
    by (cases "firstStartedAt t") (simp_all add: res(1))
  show "activeStartAt t' = Some now" by (simp add: res(1))
  show "isRunning t'" by (simp add: res(1))
  have "task_id t' = taskId" using findById_id [OF f] by (simp add: res(1))
  then show "findById s' taskId = Some t'"
    using findById_save [of s taskId t t'] f by (simp add: res(2))
next
  assume u: "unique_ids s"
  show "map firstStartedAt (tasks (snd (stopTaskTimerService roleOf now s taskId userId body))) =
        map firstStartedAt (tasks s)"
  proof (cases "fst (stopTaskTimerService roleOf now s taskId userId body)")
    case (Inl e)
    then show ?thesis by (simp add: stop_failure_unchanged)
  next
    case (Inr tb)
    then obtain t0 start where e: "ensureTaskTimerAccess roleOf s taskId userId = Inr t0"
      and a: "activeStartAt t0 = Some start" and r: "isRunning t0" by (rule stop_cases_fst)
    have m: "t0 \<in> set (tasks s)" using ensure_Inr_find [OF e] by (rule findById_mem)
    have "map firstStartedAt (tasks (save (with_body body (accounted now start t0))
            (create_work_log wl s))) = map firstStartedAt (tasks (create_work_log wl s))" for wl
      using u m by (intro map_field_save [where t = t0])
        (simp_all add: unique_ids_def with_body_fields accounted_fields)
    then show ?thesis by (simp add: stop_eq [OF e a r])
  qed
  show "map firstStartedAt (tasks (snd (stopAllRunningTaskTimersService roleOf now s ws actor))) =
        map firstStartedAt (tasks s)"
  proof (cases "fst (stopAllRunningTaskTimersService roleOf now s ws actor)")
    case (Inl e)
    then show ?thesis by (simp add: stopAll_failure_unchanged)
  next
    case (Inr n)
    have "firstStartedAt (stopped_doc now d) = firstStartedAt d" for d
      by (simp add: stopped_doc_def accounted_fields split: option.split)
    then show ?thesis
      by (simp add: stopAll_tasks_result [OF u stopAll_cases_fst [OF Inr]] comp_def cong: if_cong)
  qed
qed

theorem firstStartedAt_set_once_witness:
  "findById ex_db0 ''t1'' = Some ex_t1 \<and> firstStartedAt ex_t1 = None \<and>
   startTaskTimerService ex_roles 1000 ex_db0 ''t1'' ''alice'' = (Inr ex_t1_running, ex_db1) \<and>
   firstStartedAt ex_t1_running = Some 1000 \<and> activeStartAt ex_t1_running = Some 1000 \<and>
   findById ex_db2 ''t1'' = Some ex_t1_stopped \<and> firstStartedAt ex_t1_stopped = Some 1000 \<and>
   startTaskTimerService ex_roles 200000 ex_db2 ''t1'' ''alice'' =
     (Inr (ex_t1_stopped\<lparr>isRunning := True, activeStartAt := Some 200000\<rparr>),
      ex_db2\<lparr>tasks := [ex_t1_stopped\<lparr>isRunning := True, activeStartAt := Some 200000\<rparr>,
                        ex_t2, ex_t3]\<rparr>) \<and>
   unique_ids ex_db1 \<and>
   snd (stopTaskTimerService ex_roles 91000 ex_db1 ''t1'' ''alice'' ex_body) = ex_db2 \<and>
   map firstStartedAt (tasks ex_db2) = map firstStartedAt (tasks ex_db1) \<and>
   snd (stopAllRunningTaskTimersService ex_roles 91000 ex_db1 ''w1'' ''admin'') = ex_db3 \<and>
   map firstStartedAt (tasks ex_db3) = map firstStartedAt (tasks ex_db1)"
  using firstStartedAt_set_once [where s = ex_db0 and taskId = "''t1''" and t = ex_t1
      and roleOf = ex_roles and now = 1000 and userId = "''alice''" and t' = ex_t1_running
      and s' = ex_db1]
    firstStartedAt_set_once [where s = ex_db2 and taskId = "''t1''" and t = ex_t1_stopped
      and roleOf = ex_roles and now = 200000 and userId = "''alice''"
      and t' = "ex_t1_stopped\<lparr>isRunning := True, activeStartAt := Some 200000\<rparr>"
      and s' = "ex_db2\<lparr>tasks := [ex_t1_stopped\<lparr>isRunning := True, activeStartAt := Some 200000\<rparr>,
                                  ex_t2, ex_t3]\<rparr>"]
    firstStartedAt_set_once [where s = ex_db1 and taskId = "''t1''"
      and roleOf = ex_roles and now = 91000 and userId = "''alice''" and body = ex_body
      and ws = "''w1''" and actor = "''admin''"]
  by (simp add: ex_defs service_defs)



section \<open>Lemmas about paths and the file system\<close>

lemmas file_defs = path_join_def path_resolve_def path_basename_def path_dirname_def
  resolveWorkspacePath_def fs_stat_def fs_mkdir_def fs_mkdir_recursive_def fs_readdir_def
  fs_writeFile_def fs_rm_recursive_def fs_unlink_def logFileAccess_def ensureWorkspaceRoot_def
  listWorkspaceFilesService_def getWorkspaceFileDownloadService_def
  uploadWorkspaceFilesService_def createWorkspaceFolderService_def
  deleteWorkspaceItemService_def AList.update.simps AList.delete_eq Let_def

lemmas ex_file_defs = ex_storage_root_def ex_files0_def ex_files1_def ex_files2_def







lemma fs_stat_update:
  "fs_stat (AList.update p n fs) q =
     (if q = [] then Some DirNode else if q = p then Some n else fs_stat fs q)"
  by (simp add: fs_stat_def update_conv')

lemma fs_stat_update_dir:
  "fs_stat fs q = Some DirNode \<Longrightarrow> fs_stat (AList.update p DirNode fs) q = Some DirNode"
  by (simp add: fs_stat_update)

lemma mkdirs_keeps_dirs:
  "mkdirs base xs fs = Inr fs' \<Longrightarrow> fs_stat fs q = Some DirNode \<Longrightarrow> fs_stat fs' q = Some DirNode"
proof (induction xs arbitrary: base fs)
  case Nil
  then show ?case by simp
next
  case (Cons x xs)
  show ?case
  proof (cases "fs_stat fs (base @ [x])")
    case None
    with Cons.prems(1) have "mkdirs (base @ [x]) xs (AList.update (base @ [x]) DirNode fs) = Inr fs'"
      by simp
    from Cons.IH [OF this fs_stat_update_dir [OF Cons.prems(2)]] show ?thesis .
  next
    case (Some n)
    with Cons.prems(1) have n: "n = DirNode" by (cases n) simp_all
    with Some Cons.prems(1) have "mkdirs (base @ [x]) xs fs = Inr fs'" by simp
    from Cons.IH [OF this Cons.prems(2)] show ?thesis .
  qed
qed

lemma mkdirs_all_dirs: "mkdirs base xs fs = Inr fs' \<Longrightarrow> all_dirs fs' base xs"
proof (induction xs arbitrary: base fs)
  case Nil
  then show ?case by simp
next
  case (Cons x xs)
  show ?case
  proof (cases "fs_stat fs (base @ [x])")
    case None
    with Cons.prems have m: "mkdirs (base @ [x]) xs (AList.update (base @ [x]) DirNode fs) = Inr fs'"
      by simp
    have "fs_stat (AList.update (base @ [x]) DirNode fs) (base @ [x]) = Some DirNode"
      by (simp add: fs_stat_update)
    from mkdirs_keeps_dirs [OF m this] Cons.IH [OF m] show ?thesis by simp
  next
    case (Some n)
    with Cons.prems have n: "n = DirNode" by (cases n) simp_all
    with Some Cons.prems have m: "mkdirs (base @ [x]) xs fs = Inr fs'" by simp
    from mkdirs_keeps_dirs [OF m] Some n Cons.IH [OF m] show ?thesis by simp
  qed
qed

lemma all_dirs_mkdirs: "all_dirs fs base xs \<Longrightarrow> mkdirs base xs fs = Inr fs"
  by (induction xs arbitrary: base) simp_all

lemma all_dirs_update: "all_dirs fs base xs \<Longrightarrow> all_dirs (AList.update p DirNode fs) base xs"
  by (induction xs arbitrary: base) (simp_all add: fs_stat_update_dir)

lemma storage_logFileAccess [simp]:
  "storage (logFileAccess workspaceId userId act logPath fileName sz st) = storage st"
  by (simp add: logFileAccess_def)

lemma ensure_root_cases:
  assumes "ensureWorkspaceRoot storageRoot st workspaceId = (Inr root, st1)"
  shows "root = path_join storageRoot workspaceId"
    and "fs_mkdir_recursive root (storage st) = Inr (storage st1)"
    and "st1 = st\<lparr>storage := storage st1\<rparr>"
  using assms by (auto simp: ensureWorkspaceRoot_def Let_def split: sum.splits)

lemma ensure_root_again:
  assumes "all_dirs (storage st) [] (path_join storageRoot workspaceId)"
  shows "ensureWorkspaceRoot storageRoot st workspaceId =
           (Inr (path_join storageRoot workspaceId), st)"
  using all_dirs_mkdirs [OF assms]
  by (simp add: ensureWorkspaceRoot_def Let_def fs_mkdir_recursive_def)





lemma create_rejected:
  assumes "ensureWorkspaceRoot storageRoot st ws = (Inr root, st1)"
    and "resolveWorkspacePath root (case relPath of Some p \<Rightarrow> p | None \<Rightarrow> []) = Inl e"
  shows "createWorkspaceFolderService storageRoot sanitize st ws u relPath name = (Inl e, st1)"
  using assms by (simp add: createWorkspaceFolderService_def)



text \<open>A service that returns a result has been let through by the resolver.\<close>

lemma ensure_root_result:
  obtains e where "ensureWorkspaceRoot storageRoot st ws = (Inl e, st)"
  | st1 where "ensureWorkspaceRoot storageRoot st ws = (Inr (path_join storageRoot ws), st1)"
  by (cases "fs_mkdir_recursive (path_join storageRoot ws) (storage st)")
     (auto simp: ensureWorkspaceRoot_def Let_def)



lemma create_accepted:
  assumes "fst (createWorkspaceFolderService storageRoot sanitize st ws u relPath name) = Inr x"
  shows "\<exists>t. resolveWorkspacePath (path_join storageRoot ws)
               (case relPath of Some p \<Rightarrow> p | None \<Rightarrow> []) = Inr t"
proof (cases rule: ensure_root_result [of storageRoot st ws])
  case (1 e)
  with assms show ?thesis by (simp add: createWorkspaceFolderService_def)
next
  case (2 st1)
  show ?thesis
  proof (cases "resolveWorkspacePath (path_join storageRoot ws)
      (case relPath of Some p \<Rightarrow> p | None \<Rightarrow> [])")
    case (Inl e)
    from create_rejected [OF 2 Inl] assms show ?thesis by simp
  next
    case (Inr t)
    then show ?thesis by simp
  qed
qed






section \<open>The file-library claims\<close>




text \<open>
  Claim C8, as amended. Creating a folder whose sanitised target name already exists in
  the target directory throws \<open>BadRequestException\<close> with the message
  \<open>Folder already exists\<close>, an error of the BadRequest class; after a folder has been
  created, creating the same name again in the same directory fails this way and
  leaves the state as it was.
\<close>

theorem folder_exists_bad_request:
  "(ensureWorkspaceRoot storageRoot st ws = (Inr wsRoot, st1) \<and>
    resolveWorkspacePath wsRoot (case relPath of Some p \<Rightarrow> p | None \<Rightarrow> []) = Inr targetAbs \<and>
    fs_stat (storage st1) (path_join targetAbs (sanitize name)) = Some n \<longrightarrow>
      createWorkspaceFolderService storageRoot sanitize st ws u relPath name =
        (Inl (BadRequestException ''Folder already exists''), st1)) \<and>
   (createWorkspaceFolderService storageRoot sanitize st ws u relPath name = (Inr r, st2) \<longrightarrow>
      createWorkspaceFolderService storageRoot sanitize st2 ws v relPath name =
        (Inl (BadRequestException ''Folder already exists''), st2)) \<and>
   error_class (BadRequestException ''Folder already exists'') = BAD_REQUEST"
proof (intro conjI impI; (elim conjE)?)
  assume "ensureWorkspaceRoot storageRoot st ws = (Inr wsRoot, st1)"
    and "resolveWorkspacePath wsRoot (case relPath of Some p \<Rightarrow> p | None \<Rightarrow> []) = Inr targetAbs"
    and "fs_stat (storage st1) (path_join targetAbs (sanitize name)) = Some n"
  then show "createWorkspaceFolderService storageRoot sanitize st ws u relPath name =
        (Inl (BadRequestException ''Folder already exists''), st1)"
    by (simp add: createWorkspaceFolderService_def Let_def fs_mkdir_def)
next
  assume ok: "createWorkspaceFolderService storageRoot sanitize st ws u relPath name = (Inr r, st2)"
  let ?root = "path_join storageRoot ws"
  let ?rel = "case relPath of Some p \<Rightarrow> p | None \<Rightarrow> []"
  from ok have "fst (createWorkspaceFolderService storageRoot sanitize st ws u relPath name) = Inr r"
    by simp
  from create_accepted [OF this] obtain targetAbs
    where res: "resolveWorkspacePath ?root ?rel = Inr targetAbs" by blast
  let ?folder = "path_join targetAbs (sanitize name)"
  obtain st1 where en: "ensureWorkspaceRoot storageRoot st ws = (Inr ?root, st1)"
  proof (cases rule: ensure_root_result [of storageRoot st ws])
    case (1 e)
    with ok show ?thesis by (simp add: createWorkspaceFolderService_def)
  next
    case (2 st1)
    then show ?thesis by (rule that)
  qed
  have dirs: "all_dirs (storage st1) [] ?root"
    using mkdirs_all_dirs [of "[]" ?root "storage st" "storage st1"] ensure_root_cases(2) [OF en]
    by (simp add: fs_mkdir_recursive_def)
  obtain fs where mk: "fs_mkdir ?folder (storage st1) = Inr fs"
    using ok en res
    by (cases "fs_mkdir ?folder (storage st1)")
       (auto simp: createWorkspaceFolderService_def Let_def split: if_splits)
  then have fs: "fs = AList.update ?folder DirNode (storage st1)"
    by (auto simp: fs_mkdir_def split: option.splits node.splits)
  from ok en res mk have st2: "storage st2 = fs"
    by (auto simp: createWorkspaceFolderService_def Let_def)
  have "all_dirs (storage st2) [] ?root"
    unfolding st2 fs by (rule all_dirs_update [OF dirs])
  then have en2: "ensureWorkspaceRoot storageRoot st2 ws = (Inr ?root, st2)"
    by (rule ensure_root_again)
  have "fs_stat (storage st2) ?folder = Some DirNode"
    unfolding st2 fs by (simp add: fs_stat_update)
  with en2 res show "createWorkspaceFolderService storageRoot sanitize st2 ws v relPath name =
        (Inl (BadRequestException ''Folder already exists''), st2)"
    by (simp add: createWorkspaceFolderService_def Let_def fs_mkdir_def)
qed simp

theorem folder_exists_bad_request_witness:
  "ensureWorkspaceRoot ex_storage_root ex_files2 ''w1'' =
     (Inr [''srv'', ''files'', ''w1''], ex_files2) \<and>
   resolveWorkspacePath [''srv'', ''files'', ''w1''] [] = Inr [''srv'', ''files'', ''w1''] \<and>
   fs_stat (storage ex_files2) (path_join [''srv'', ''files'', ''w1''] ''notes'') = Some DirNode \<and>
   createWorkspaceFolderService ex_storage_root (\<lambda>n. n) ex_files0 ''w1'' ''alice'' None ''notes'' =
     (Inr ''notes'', ex_files2) \<and>
   createWorkspaceFolderService ex_storage_root (\<lambda>n. n) ex_files2 ''w1'' ''bob'' None ''notes'' =
     (Inl (BadRequestException ''Folder already exists''), ex_files2)"
  using folder_exists_bad_request [where storageRoot = ex_storage_root and st = ex_files2
      and ws = "''w1''" and wsRoot = "[''srv'', ''files'', ''w1'']" and ?st1.0 = ex_files2
      and relPath = None and targetAbs = "[''srv'', ''files'', ''w1'']" and sanitize = "\<lambda>n. n"
      and name = "''notes''" and n = DirNode and u = "''bob''"]
    folder_exists_bad_request [where storageRoot = ex_storage_root and st = ex_files0
      and ws = "''w1''" and relPath = None and sanitize = "\<lambda>n. n" and name = "''notes''"
      and u = "''alice''" and v = "''bob''" and r = "''notes''" and ?st2.0 = ex_files2]
  by (simp add: ex_file_defs file_defs)

text \<open>
  The claim as it was written fails: the second creation of \<open>notes\<close> throws
  \<open>BadRequestException\<close>, whose class is BadRequest and not Conflict.
\<close>

theorem folder_exists_counterexample:
  "createWorkspaceFolderService ex_storage_root (\<lambda>n. n) ex_files0 ''w1'' ''alice'' None ''notes'' =
     (Inr ''notes'', ex_files2) \<and>
   createWorkspaceFolderService ex_storage_root (\<lambda>n. n) ex_files2 ''w1'' ''alice'' None ''notes'' =
     (Inl (BadRequestException ''Folder already exists''), ex_files2) \<and>
   error_class (BadRequestException ''Folder already exists'') \<noteq> CONFLICT"
  by (simp add: ex_file_defs file_defs)

end
